theory Spec2Isabelle
  imports Complex_Main "HOL-Library.Char_ord" "HOL-Library.List_Lexorder"
begin

section \<open>Python values\<close>

text \<open>
  A text cell of a table is a Python \<open>str\<close> or the missing value (the float NaN that
  pandas stores for an empty field): \<open>Some s\<close> and \<open>None\<close>. A numeric cell is a number or
  NaN, \<open>rat option\<close>; a finite float is taken by its exact value, which is all that the
  comparison \<open>bmi > 30\<close> reads. A character is a code point below 256.
\<close>

type_synonym text_cell = "string option"
type_synonym num_cell = "rat option"

datatype pyexc =
    AttributeError
  | IndexError
  | KeyError
  | ValueError string
  | PyException string

text \<open>\<open>str.lower()\<close> on code points below 256: A-Z and the Latin-1 capitals move up by 32.\<close>

definition lower_char :: "char \<Rightarrow> char" where
  "lower_char c =
     (let n = (of_char c :: nat)
      in if (65 \<le> n \<and> n \<le> 90) \<or> (192 \<le> n \<and> n \<le> 222 \<and> n \<noteq> 215)
         then char_of (n + 32) else c)"

definition lower :: "string \<Rightarrow> string" where
  "lower s = map lower_char s"

text \<open>\<open>str.isspace()\<close> on one code point below 256, as \<open>str.strip()\<close> uses it.\<close>

definition is_space :: "char \<Rightarrow> bool" where
  "is_space c =
     (let n = (of_char c :: nat)
      in (9 \<le> n \<and> n \<le> 13) \<or> (28 \<le> n \<and> n \<le> 32) \<or> n = 133 \<or> n = 160)"

definition strip :: "string \<Rightarrow> string" where
  "strip s = rev (dropWhile is_space (rev (dropWhile is_space s)))"

text \<open>\<open>s.split(sep)\<close> for a one-character separator: n separators give n + 1 pieces.\<close>

fun str_split :: "char \<Rightarrow> string \<Rightarrow> string list" where
  "str_split sep [] = [[]]"
| "str_split sep (c # cs) =
     (if c = sep then [] # str_split sep cs
      else (case str_split sep cs of
              [] \<Rightarrow> [[c]]
            | w # ws \<Rightarrow> (c # w) # ws))"

text \<open>\<open>sub in s\<close> on strings: \<open>sub\<close> occurs in \<open>s\<close> as a contiguous piece.\<close>

fun str_contains :: "string \<Rightarrow> string \<Rightarrow> bool" where
  "str_contains sub [] = (sub = [])"
| "str_contains sub (c # cs) =
     (take (length sub) (c # cs) = sub \<or> str_contains sub cs)"

text \<open>\<open>str(x)\<close> of a text cell: NaN prints as \<open>nan\<close>.\<close>

fun py_str :: "text_cell \<Rightarrow> string" where
  "py_str (Some s) = s"
| "py_str None = ''nan''"

text \<open>\<open>x.lower()\<close> of a cell: a float has no such attribute.\<close>

fun cell_lower :: "text_cell \<Rightarrow> pyexc + string" where
  "cell_lower (Some s) = Inr (lower s)"
| "cell_lower None = Inl AttributeError"

text \<open>\<open>x == 'literal'\<close> and \<open>column == key\<close>: NaN equals nothing, itself included.\<close>

definition cell_eq :: "'a option \<Rightarrow> 'a option \<Rightarrow> bool" where
  "cell_eq a b = (a \<noteq> None \<and> a = b)"

text \<open>\<open>bmi > 30\<close>: false on NaN.\<close>

fun num_gt :: "num_cell \<Rightarrow> rat \<Rightarrow> bool" where
  "num_gt (Some b) k = (b > k)"
| "num_gt None k = False"

text \<open>\<open>max(xs)\<close> of a list.\<close>

fun py_max :: "int list \<Rightarrow> pyexc + int" where
  "py_max [] = Inl (ValueError ''max() arg is an empty sequence'')"
| "py_max (x # xs) = Inr (fold max xs x)"

section \<open>Entity tables\<close>

text \<open>
  The three tables are lists of rows in table order. The key columns hold values of any
  type \<open>'u\<close>, \<open>'t\<close> with equality, or NaN.
\<close>

record 'u user =
  UserID :: "'u option"
  Age :: num_cell
  BMI :: num_cell
  SkinType :: text_cell
  Allergies :: text_cell
  HormoneLevel :: text_cell

record 't trend =
  TrendName :: "'t option"
  Type :: text_cell
  KeyIngredients :: text_cell

record ingredient_risk =
  Ingredient :: text_cell
  RiskLevel :: text_cell

text \<open>A row of the risk matrix; its columns carry the prefix \<open>row_\<close>.\<close>

record ('u, 't) risk_row =
  row_UserID :: "'u option"
  row_Age :: num_cell
  row_BMI :: num_cell
  row_SkinType :: text_cell
  row_Allergies :: text_cell
  row_HormoneLevel :: text_cell
  row_TrendName :: "'t option"
  row_TrendType :: text_cell
  row_KeyIngredients :: text_cell
  row_RiskLevel :: string
  row_RiskScore :: int

section \<open>Rule engine\<close>

record ('u, 't) RuleEngine =
  users_df :: "'u user list"
  trends_df :: "'t trend list"
  ingredient_risk_df :: "ingredient_risk list"

text \<open>The dict of \<open>_define_risk_rules\<close>; its four keys are the only ones ever looked up.\<close>

datatype rule = Allergy | Skincare_Mismatch | Diet_Mismatch | Banned_Ingredient

fun risk_rules :: "rule \<Rightarrow> int" where
  "risk_rules Allergy = 3"
| "risk_rules Skincare_Mismatch = 2"
| "risk_rules Diet_Mismatch = 1"
| "risk_rules Banned_Ingredient = 3"

text \<open>
  The comprehension \<open>[a.strip().lower() for a in str(x).split(',') if str(a).strip()]\<close>.
\<close>

definition tokens :: "text_cell \<Rightarrow> string list" where
  "tokens x = map (\<lambda>a. lower (strip a)) (filter (\<lambda>a. strip a \<noteq> []) (str_split CHR '','' (py_str x)))"

definition check_allergy_risk :: "text_cell \<Rightarrow> text_cell \<Rightarrow> int" where
  "check_allergy_risk user_allergies trend_ingredients =
     (let ua = tokens user_allergies; ti = tokens trend_ingredients
      in if list_ex (\<lambda>ing. ing \<in> set ua) ti then risk_rules Allergy else 0)"

text \<open>
  \<open>and\<close> evaluates left to right and stops at the first false operand, so
  \<open>trend_ingredients.lower()\<close> runs only when both comparisons hold.
\<close>

definition check_skincare_risk :: "text_cell \<Rightarrow> text_cell \<Rightarrow> text_cell \<Rightarrow> pyexc + int" where
  "check_skincare_risk skin_type trend_type trend_ingredients =
     (if cell_eq trend_type (Some ''Skincare'') \<and> cell_eq skin_type (Some ''Sensitive'')
      then (case cell_lower trend_ingredients of
              Inl e \<Rightarrow> Inl e
            | Inr s \<Rightarrow> Inr (if str_contains ''acid'' s then risk_rules Skincare_Mismatch else 0))
      else Inr 0)"

definition check_diet_risk :: "num_cell \<Rightarrow> text_cell \<Rightarrow> text_cell \<Rightarrow> pyexc + int" where
  "check_diet_risk bmi trend_type trend_ingredients =
     (if cell_eq trend_type (Some ''Dietary'') \<and> num_gt bmi 30
      then (case cell_lower trend_ingredients of
              Inl e \<Rightarrow> Inl e
            | Inr s \<Rightarrow> Inr (if str_contains ''detox'' s then risk_rules Diet_Mismatch else 0))
      else Inr 0)"

text \<open>
  The type of a column, as reading the table from a file sets it: a column with rows and
  no text in any of them holds floats (every cell is NaN); a column without rows, or with
  text in some row, is a text column. A selection of rows keeps the type of its column.
\<close>

definition text_column :: "text_cell list \<Rightarrow> bool" where
  "text_column col = (col = [] \<or> list_ex (\<lambda>c. c \<noteq> None) col)"

text \<open>
  \<open>high_risk_ingredients\<close>: the Ingredient column of the rows marked High, lowered by
  the \<open>.str\<close> accessor. The accessor raises AttributeError on a column that is not a text
  column; on a text column \<open>.str.lower()\<close> leaves NaN where a cell is missing.
\<close>

definition high_risk_ingredients :: "ingredient_risk list \<Rightarrow> pyexc + text_cell list" where
  "high_risk_ingredients df =
     (if text_column (map Ingredient df)
      then Inr (map (\<lambda>r. map_option lower (Ingredient r))
                  (filter (\<lambda>r. cell_eq (RiskLevel r) (Some ''High'')) df))
      else Inl AttributeError)"

definition check_ingredient_risk_level ::
  "('u, 't) RuleEngine \<Rightarrow> text_cell \<Rightarrow> pyexc + int" where
  "check_ingredient_risk_level self trend_ingredients =
     (let ti = tokens trend_ingredients
      in case high_risk_ingredients (ingredient_risk_df self) of
           Inl e \<Rightarrow> Inl e
         | Inr hr \<Rightarrow>
            Inr (if list_ex (\<lambda>ing. Some ing \<in> set hr) ti
                 then risk_rules Banned_Ingredient else 0))"

definition level_of :: "int \<Rightarrow> string \<times> int" where
  "level_of max_risk =
     (if max_risk \<ge> 3 then (''High Risk'', max_risk)
      else if max_risk \<ge> 1 then (''Medium Risk'', max_risk)
      else (''Safe'', max_risk))"

text \<open>\<open>_assess_risk_efficient\<close>: the four checks in order, then the maximum and its level.\<close>

definition assess_risk_efficient ::
  "('u, 't) RuleEngine \<Rightarrow> 'u user \<Rightarrow> 't trend \<Rightarrow> pyexc + (string \<times> int)" where
  "assess_risk_efficient self user trend =
     (let s1 = check_allergy_risk (Allergies user) (KeyIngredients trend)
      in case check_skincare_risk (SkinType user) (Type trend) (KeyIngredients trend) of
           Inl e \<Rightarrow> Inl e
         | Inr s2 \<Rightarrow>
            (case check_diet_risk (BMI user) (Type trend) (KeyIngredients trend) of
               Inl e \<Rightarrow> Inl e
             | Inr s3 \<Rightarrow>
                (case check_ingredient_risk_level self (KeyIngredients trend) of
                   Inl e \<Rightarrow> Inl e
                 | Inr s4 \<Rightarrow>
                    (case py_max [s1, s2, s3, s4] of
                       Inl e \<Rightarrow> Inl e
                     | Inr max_risk \<Rightarrow> Inr (level_of max_risk)))))"

text \<open>\<open>df[mask].iloc[0]\<close>: the first row the mask keeps, IndexError when it keeps none.\<close>

fun iloc0 :: "'a list \<Rightarrow> pyexc + 'a" where
  "iloc0 [] = Inl IndexError"
| "iloc0 (x # xs) = Inr x"

definition assess_risk ::
  "('u, 't) RuleEngine \<Rightarrow> 'u option \<Rightarrow> 't option \<Rightarrow> pyexc + (string \<times> int)" where
  "assess_risk self user_id trend_name =
     (case iloc0 (filter (\<lambda>u. cell_eq (UserID u) user_id) (users_df self)) of
        Inl e \<Rightarrow> Inl e
      | Inr user \<Rightarrow>
         (case iloc0 (filter (\<lambda>t. cell_eq (TrendName t) trend_name) (trends_df self)) of
            Inl e \<Rightarrow> Inl e
          | Inr trend \<Rightarrow> assess_risk_efficient self user trend))"

definition make_row :: "'u user \<Rightarrow> 't trend \<Rightarrow> string \<Rightarrow> int \<Rightarrow> ('u, 't) risk_row" where
  "make_row user_data trend_data risk_level risk_score =
     \<lparr> row_UserID = UserID user_data,
       row_Age = Age user_data,
       row_BMI = BMI user_data,
       row_SkinType = SkinType user_data,
       row_Allergies = Allergies user_data,
       row_HormoneLevel = HormoneLevel user_data,
       row_TrendName = TrendName trend_data,
       row_TrendType = Type trend_data,
       row_KeyIngredients = KeyIngredients trend_data,
       row_RiskLevel = risk_level,
       row_RiskScore = risk_score \<rparr>"

text \<open>
  The two loops of \<open>generate_risk_matrix\<close>, with \<open>risk_results\<close> as the accumulator; an
  exception of one assessment leaves both loops.
\<close>

fun trend_loop ::
  "('u, 't) RuleEngine \<Rightarrow> 'u user \<Rightarrow> 't trend list \<Rightarrow> ('u, 't) risk_row list
     \<Rightarrow> pyexc + ('u, 't) risk_row list" where
  "trend_loop self user_data [] risk_results = Inr risk_results"
| "trend_loop self user_data (trend_data # ts) risk_results =
     (case assess_risk_efficient self user_data trend_data of
        Inl e \<Rightarrow> Inl e
      | Inr (risk_level, risk_score) \<Rightarrow>
          trend_loop self user_data ts
            (risk_results @ [make_row user_data trend_data risk_level risk_score]))"

fun user_loop ::
  "('u, 't) RuleEngine \<Rightarrow> 'u user list \<Rightarrow> ('u, 't) risk_row list
     \<Rightarrow> pyexc + ('u, 't) risk_row list" where
  "user_loop self [] risk_results = Inr risk_results"
| "user_loop self (user_data # us) risk_results =
     (case trend_loop self user_data (trends_df self) risk_results of
        Inl e \<Rightarrow> Inl e
      | Inr risk_results' \<Rightarrow> user_loop self us risk_results')"

definition generate_risk_matrix ::
  "('u, 't) RuleEngine \<Rightarrow> pyexc + ('u, 't) risk_row list" where
  "generate_risk_matrix self = user_loop self (users_df self) []"

section \<open>Model trainer\<close>

text \<open>
  A feature table: its column names and its rows, each with its index label and one cell
  per column. A cell is a number, an indicator or NaN.
\<close>

datatype fcell = FNum rat | FInt int | FBool bool | FNaN

record frame =
  df_columns :: "string list"
  df_rows :: "(nat \<times> fcell list) list"

text \<open>The columns that \<open>risk_df[['Age', 'BMI', 'SkinType', 'Allergies', 'TrendType']]\<close> keeps.\<close>

record features =
  f_Age :: num_cell
  f_BMI :: num_cell
  f_SkinType :: text_cell
  f_Allergies :: text_cell
  f_TrendType :: text_cell

definition select_features :: "('u, 't) risk_row \<Rightarrow> features" where
  "select_features r =
     \<lparr> f_Age = row_Age r, f_BMI = row_BMI r, f_SkinType = row_SkinType r,
       f_Allergies = row_Allergies r, f_TrendType = row_TrendType r \<rparr>"

text \<open>A table with the default index: row \<open>i\<close> has the label \<open>i\<close>.\<close>

definition range_index :: "'a list \<Rightarrow> (nat \<times> 'a) list" where
  "range_index xs = zip [0..<length xs] xs"

text \<open>
  \<open>pd.get_dummies\<close> makes one indicator column per distinct value of the column, in
  sorted order; missing values are no category, and their rows get False throughout.
\<close>

definition categories :: "text_cell list \<Rightarrow> string list" where
  "categories col = sort (remdups [c. Some c \<leftarrow> col])"

definition dummies :: "string list \<Rightarrow> text_cell \<Rightarrow> fcell list" where
  "dummies cats x = map (\<lambda>c. FBool (x = Some c)) cats"

fun num_value :: "num_cell \<Rightarrow> fcell" where
  "num_value (Some r) = FNum r"
| "num_value None = FNaN"

text \<open>The lambda \<open>1 if str(x).lower() not in ('none', 'nan') else 0\<close>.\<close>

definition has_allergies :: "text_cell \<Rightarrow> int" where
  "has_allergies x = (if lower (py_str x) \<notin> {''none'', ''nan''} then 1 else 0)"

text \<open>
  \<open>_preprocess_features\<close>: the indicator columns go behind the columns left alone,
  HasAllergies is added last, and Allergies is dropped.
\<close>

definition preprocess_features :: "(nat \<times> features) list \<Rightarrow> frame" where
  "preprocess_features X =
     (let skin = categories (map (\<lambda>ix. f_SkinType (snd ix)) X);
          kind = categories (map (\<lambda>ix. f_TrendType (snd ix)) X)
      in \<lparr> df_columns =
             [''Age'', ''BMI''] @ map (\<lambda>c. ''SkinType_'' @ c) skin
               @ map (\<lambda>c. ''TrendType_'' @ c) kind @ [''HasAllergies''],
           df_rows =
             map (\<lambda>ix. (fst ix,
                    [num_value (f_Age (snd ix)), num_value (f_BMI (snd ix))]
                      @ dummies skin (f_SkinType (snd ix))
                      @ dummies kind (f_TrendType (snd ix))
                      @ [FInt (has_allergies (f_Allergies (snd ix)))])) X \<rparr>)"

text \<open>\<open>dropna\<close>: a row stays when none of its cells is NaN.\<close>

definition dropna :: "frame \<Rightarrow> frame" where
  "dropna df = df\<lparr> df_rows := filter (\<lambda>r. FNaN \<notin> set (snd r)) (df_rows df) \<rparr>"

text \<open>The values of one column, by name.\<close>

fun position :: "'a list \<Rightarrow> 'a \<Rightarrow> nat" where
  "position [] x = 0"
| "position (c # cs) x = (if c = x then 0 else Suc (position cs x))"

definition column :: "frame \<Rightarrow> string \<Rightarrow> pyexc + fcell list" where
  "column df name =
     (if name \<in> set (df_columns df)
      then Inr (map (\<lambda>r. snd r ! position (df_columns df) name) (df_rows df))
      else Inl KeyError)"

text \<open>
  \<open>s[labels]\<close> and \<open>df.loc[labels]\<close> on a table with the default index: the rows with
  these labels, KeyError for a label that the table has not.
\<close>

fun loc :: "'a list \<Rightarrow> nat list \<Rightarrow> pyexc + 'a list" where
  "loc xs [] = Inr []"
| "loc xs (i # is) =
     (if i < length xs
      then (case loc xs is of Inl e \<Rightarrow> Inl e | Inr ys \<Rightarrow> Inr (xs ! i # ys))
      else Inl KeyError)"

text \<open>
  \<open>LabelEncoder.fit_transform\<close>: the classes are the distinct labels in sorted order, and
  a label is encoded as its position among them.
\<close>

definition fit_transform :: "string list \<Rightarrow> string list \<times> nat list" where
  "fit_transform y = (let classes = sort (remdups y) in (classes, map (position classes) y))"

text \<open>
  What the trainer takes from scikit-learn: the split, the classifier with its \<open>fit\<close> and
  \<open>predict\<close>, and the three metrics.
\<close>

datatype ndarray = Table frame | Vector "int list"

record ('m, 'r) sklearn =
  train_test_split ::
    "frame \<Rightarrow> nat list \<Rightarrow> rat \<Rightarrow> nat \<Rightarrow> pyexc + (frame \<times> frame \<times> nat list \<times> nat list)"
  RandomForestClassifier :: "nat \<Rightarrow> nat \<Rightarrow> 'm"
  fit :: "'m \<Rightarrow> frame \<Rightarrow> nat list \<Rightarrow> pyexc + 'm"
  predict :: "'m \<Rightarrow> ndarray \<Rightarrow> pyexc + nat list"
  accuracy_score :: "nat list \<Rightarrow> nat list \<Rightarrow> pyexc + rat"
  classification_report :: "nat list \<Rightarrow> nat list \<Rightarrow> string list \<Rightarrow> pyexc + 'r"
  confusion_matrix :: "nat list \<Rightarrow> nat list \<Rightarrow> pyexc + nat list list"

record ('u, 't, 'm) MLModel =
  rule_engine :: "('u, 't) RuleEngine"
  label_encoder :: "string list option"
  model :: "'m option"
  X_train :: "frame option"
  X_test :: "frame option"
  y_train :: "nat list option"
  y_test :: "nat list option"
  risk_df_cleaned :: "(nat \<times> ('u, 't) risk_row) list option"

text \<open>\<open>MLModel(rule_engine)\<close>.\<close>

definition new_MLModel :: "('u, 't) RuleEngine \<Rightarrow> ('u, 't, 'm) MLModel" where
  "new_MLModel e =
     \<lparr> rule_engine = e, label_encoder = None, model = None, X_train = None, X_test = None,
       y_train = None, y_test = None, risk_df_cleaned = None \<rparr>"

text \<open>
  \<open>prepare_training_data\<close> returns its result or its exception together with the object
  as the call leaves it. A matrix without rows is a table without columns, in which the
  selection of the feature columns raises KeyError.
\<close>

definition prepare_training_data ::
  "('u, 't, 'm) MLModel \<Rightarrow>
     (pyexc + (frame \<times> nat list \<times> (nat \<times> ('u, 't) risk_row) list)) \<times> ('u, 't, 'm) MLModel" where
  "prepare_training_data self =
     (case generate_risk_matrix (rule_engine self) of
        Inl e \<Rightarrow> (Inl e, self)
      | Inr risk_df \<Rightarrow>
         (if length risk_df = 0 then (Inl KeyError, self)
          else
            (let X = range_index (map select_features risk_df);
                 y = map row_RiskLevel risk_df;
                 X_processed = dropna (preprocess_features X);
                 kept = map fst (df_rows X_processed)
             in case loc y kept of
                  Inl e \<Rightarrow> (Inl e, self)
                | Inr y' \<Rightarrow>
                   (let self1 = self\<lparr> label_encoder := Some (fst (fit_transform y')) \<rparr>;
                        y_encoded = snd (fit_transform y')
                    in case loc risk_df kept of
                         Inl e \<Rightarrow> (Inl e, self1)
                       | Inr cleaned \<Rightarrow>
                          (Inr (X_processed, y_encoded, zip kept cleaned),
                           self1\<lparr> risk_df_cleaned := Some (zip kept cleaned) \<rparr>)))))"

text \<open>
  The part of \<open>train_model\<close> behind the check of the classifier kind: create the
  classifier, fit it on the training partition, predict the test partition and score.
\<close>

definition fit_and_evaluate ::
  "('m, 'r) sklearn \<Rightarrow> ('u, 't, 'm) MLModel \<Rightarrow> frame \<Rightarrow> frame \<Rightarrow> nat list \<Rightarrow> nat list \<Rightarrow>
     (pyexc + (rat \<times> 'r \<times> nat list list \<times> 'm)) \<times> ('u, 't, 'm) MLModel" where
  "fit_and_evaluate sk self xtr xte ytr yte =
     (let self3 = self\<lparr> model := Some (RandomForestClassifier sk 100 42) \<rparr>
      in case fit sk (RandomForestClassifier sk 100 42) xtr ytr of
           Inl e \<Rightarrow> (Inl e, self3)
         | Inr m \<Rightarrow>
            (let self4 = self3\<lparr> model := Some m \<rparr>;
                 classes = (case label_encoder self4 of None \<Rightarrow> [] | Some cs \<Rightarrow> cs)
             in case predict sk m (Table xte) of
                  Inl e \<Rightarrow> (Inl e, self4)
                | Inr y_pred \<Rightarrow>
                   (case accuracy_score sk yte y_pred of
                      Inl e \<Rightarrow> (Inl e, self4)
                    | Inr accuracy \<Rightarrow>
                       (case classification_report sk yte y_pred classes of
                          Inl e \<Rightarrow> (Inl e, self4)
                        | Inr report \<Rightarrow>
                           (case confusion_matrix sk yte y_pred of
                              Inl e \<Rightarrow> (Inl e, self4)
                            | Inr conf_matrix \<Rightarrow>
                               (Inr (accuracy, report, conf_matrix, m), self4))))))"

text \<open>
  \<open>train_model\<close>: the data is prepared and split, and the partitions stored, before the
  classifier kind is looked at.
\<close>

definition train_model ::
  "('m, 'r) sklearn \<Rightarrow> ('u, 't, 'm) MLModel \<Rightarrow> string \<Rightarrow>
     (pyexc + (rat \<times> 'r \<times> nat list list \<times> 'm)) \<times> ('u, 't, 'm) MLModel" where
  "train_model sk self model_type =
     (case prepare_training_data self of
        (Inl e, self1) \<Rightarrow> (Inl e, self1)
      | (Inr (X_processed, y_encoded, cleaned), self1) \<Rightarrow>
         (case train_test_split sk X_processed y_encoded (2 / 10) 42 of
            Inl e \<Rightarrow> (Inl e, self1)
          | Inr (xtr, xte, ytr, yte) \<Rightarrow>
             (let self2 = self1\<lparr> X_train := Some xtr, X_test := Some xte,
                                 y_train := Some ytr, y_test := Some yte \<rparr>
              in if model_type = ''random_forest''
                 then fit_and_evaluate sk self2 xtr xte ytr yte
                 else (Inl (ValueError ''Unsupported model type.''), self2))))"

text \<open>\<open>predict_risk\<close>: the fixed array \<open>[1, 0, 1]\<close> is what the model is asked about.\<close>

definition predict_risk ::
  "('m, 'r) sklearn \<Rightarrow> ('u, 't, 'm) MLModel \<Rightarrow> 'a \<Rightarrow> 'b \<Rightarrow> pyexc + nat list" where
  "predict_risk sk self user_features trend_features =
     (case model self of
        None \<Rightarrow> Inl (PyException ''Model not trained yet.'')
      | Some m \<Rightarrow> predict sk m (Vector [1, 0, 1]))"

section \<open>Stated properties\<close>

text \<open>The three thresholds that tie the risk level to the risk score.\<close>

definition threshold_consistent :: "string \<Rightarrow> int \<Rightarrow> bool" where
  "threshold_consistent lvl sc =
     (((lvl = ''Safe'') = (sc = 0)) \<and>
      ((lvl = ''Medium Risk'') = (1 \<le> sc \<and> sc \<le> 2)) \<and>
      ((lvl = ''High Risk'') = (sc \<ge> 3)))"

text \<open>
  \<open>row_of self (user, trend) r\<close>: \<open>r\<close> is the row that the matrix holds for this pair, its
  attribute snapshot with the level and score of the pair's assessment.
\<close>

definition row_of :: "('u, 't) RuleEngine \<Rightarrow> 'u user \<times> 't trend \<Rightarrow> ('u, 't) risk_row \<Rightarrow> bool" where
  "row_of self p r =
     (assess_risk_efficient self (fst p) (snd p) = Inr (row_RiskLevel r, row_RiskScore r) \<and>
      r = make_row (fst p) (snd p) (row_RiskLevel r) (row_RiskScore r))"

text \<open>The key pair of a matrix row.\<close>

definition row_keys :: "('u, 't) risk_row \<Rightarrow> 'u option \<times> 't option" where
  "row_keys r = (row_UserID r, row_TrendName r)"

text \<open>The index labels of the matrix rows in which neither Age nor BMI is missing.\<close>

definition kept_labels :: "('u, 't) risk_row list \<Rightarrow> nat list" where
  "kept_labels risk_df =
     filter (\<lambda>i. row_Age (risk_df ! i) \<noteq> None \<and> row_BMI (risk_df ! i) \<noteq> None)
       [0..<length risk_df]"

text \<open>
  The allergy token set in the specification's words: comma-separated text normalised to
  lowercase, trimmed tokens, with empty text, a missing value and the word \<open>none\<close> giving
  no token. It is compared with what \<open>_preprocess_features\<close> computes.
\<close>

definition normalized_allergy_tokens :: "text_cell \<Rightarrow> string list" where
  "normalized_allergy_tokens x =
     (case x of
        None \<Rightarrow> []
      | Some s \<Rightarrow> filter (\<lambda>a. a \<noteq> ''none'') (tokens (Some s)))"

section \<open>Sample tables\<close>

text \<open>Sample tables on which the functions are run.\<close>

definition demo_users :: "nat user list" where
  "demo_users =
     [\<lparr>UserID = Some 1, Age = Some 28, BMI = Some 32, SkinType = Some ''Sensitive'',
       Allergies = Some ''Nuts'', HormoneLevel = Some ''Normal''\<rparr>,
      \<lparr>UserID = Some 2, Age = Some 40, BMI = Some 22, SkinType = Some ''Oily'',
       Allergies = None, HormoneLevel = Some ''Low''\<rparr>]"

definition demo_trends :: "string trend list" where
  "demo_trends =
     [\<lparr>TrendName = Some ''Acid Peel'', Type = Some ''Skincare'',
       KeyIngredients = Some ''Glycolic Acid, Nuts''\<rparr>,
      \<lparr>TrendName = Some ''Detox Tea'', Type = Some ''Dietary'',
       KeyIngredients = Some ''Detox Herbs''\<rparr>]"

definition demo_engine :: "(nat, string) RuleEngine" where
  "demo_engine =
     \<lparr>users_df = demo_users, trends_df = demo_trends,
      ingredient_risk_df = [\<lparr>Ingredient = Some ''Lead'', RiskLevel = Some ''High''\<rparr>]\<rparr>"

definition demo_rows :: "(nat, string) risk_row list" where
  "demo_rows =
     [make_row (demo_users ! 0) (demo_trends ! 0) ''High Risk'' 3,
      make_row (demo_users ! 0) (demo_trends ! 1) ''Medium Risk'' 1,
      make_row (demo_users ! 1) (demo_trends ! 0) ''Safe'' 0,
      make_row (demo_users ! 1) (demo_trends ! 1) ''Safe'' 0]"

definition dup_engine :: "(nat, string) RuleEngine" where
  "dup_engine =
     \<lparr>users_df =
        [\<lparr>UserID = Some 7, Age = Some 30, BMI = Some 24, SkinType = Some ''Sensitive'',
          Allergies = Some ''none'', HormoneLevel = Some ''Normal''\<rparr>,
         \<lparr>UserID = Some 7, Age = Some 51, BMI = Some 24, SkinType = Some ''Oily'',
          Allergies = Some ''none'', HormoneLevel = Some ''High''\<rparr>],
      trends_df =
        [\<lparr>TrendName = Some ''Peel'', Type = Some ''Skincare'',
          KeyIngredients = Some ''Salicylic Acid''\<rparr>,
         \<lparr>TrendName = Some ''Peel'', Type = Some ''Skincare'',
          KeyIngredients = Some ''Aloe''\<rparr>],
      ingredient_risk_df = []\<rparr>"

definition bad_engine :: "(nat, string) RuleEngine" where
  "bad_engine =
     \<lparr>users_df =
        [\<lparr>UserID = Some 1, Age = Some 30, BMI = Some 24, SkinType = Some ''Sensitive'',
          Allergies = None, HormoneLevel = Some ''Normal''\<rparr>],
      trends_df =
        [\<lparr>TrendName = Some ''Mystery Serum'', Type = Some ''Skincare'',
          KeyIngredients = None\<rparr>],
      ingredient_risk_df = []\<rparr>"

definition dup_bad_engine :: "(nat, string) RuleEngine" where
  "dup_bad_engine =
     \<lparr>users_df =
        [\<lparr>UserID = Some 7, Age = Some 30, BMI = Some 24, SkinType = Some ''Sensitive'',
          Allergies = Some ''none'', HormoneLevel = Some ''Normal''\<rparr>,
         \<lparr>UserID = Some 7, Age = Some 51, BMI = Some 24, SkinType = Some ''Oily'',
          Allergies = Some ''none'', HormoneLevel = Some ''High''\<rparr>],
      trends_df =
        [\<lparr>TrendName = Some ''Peel'', Type = Some ''Skincare'', KeyIngredients = None\<rparr>,
         \<lparr>TrendName = Some ''Peel'', Type = Some ''Skincare'',
          KeyIngredients = Some ''Aloe''\<rparr>],
      ingredient_risk_df = []\<rparr>"

definition blank_allergies :: "(nat \<times> features) list" where
  "blank_allergies =
     [(0, \<lparr>f_Age = Some 30, f_BMI = Some 22, f_SkinType = Some ''Oily'',
           f_Allergies = Some '''', f_TrendType = Some ''Skincare''\<rparr>),
      (1, \<lparr>f_Age = Some 41, f_BMI = Some 27, f_SkinType = Some ''Normal'',
           f_Allergies = Some '' '', f_TrendType = Some ''Dietary''\<rparr>),
      (2, \<lparr>f_Age = Some 35, f_BMI = Some 25, f_SkinType = None,
           f_Allergies = Some ''None'', f_TrendType = Some ''Dietary''\<rparr>)]"

definition gap_engine :: "(nat, string) RuleEngine" where
  "gap_engine =
     \<lparr>users_df =
        [\<lparr>UserID = Some 1, Age = None, BMI = Some 22, SkinType = Some ''Oily'',
          Allergies = Some ''pollen'', HormoneLevel = Some ''Normal''\<rparr>,
         \<lparr>UserID = Some 2, Age = Some 40, BMI = Some 31, SkinType = Some ''Sensitive'',
          Allergies = None, HormoneLevel = Some ''Low''\<rparr>,
         \<lparr>UserID = Some 3, Age = Some 33, BMI = None, SkinType = None,
          Allergies = Some ''none'', HormoneLevel = Some ''High''\<rparr>],
      trends_df =
        [\<lparr>TrendName = Some ''Acid Peel'', Type = Some ''Skincare'',
          KeyIngredients = Some ''Glycolic Acid''\<rparr>],
      ingredient_risk_df = []\<rparr>"

definition gap_rows :: "(nat, string) risk_row list" where
  "gap_rows =
     [make_row (users_df gap_engine ! 0) (trends_df gap_engine ! 0) ''Safe'' 0,
      make_row (users_df gap_engine ! 1) (trends_df gap_engine ! 0) ''Medium Risk'' 2,
      make_row (users_df gap_engine ! 2) (trends_df gap_engine ! 0) ''Safe'' 0]"

definition gap_frame :: frame where
  "gap_frame =
     \<lparr>df_columns = [''Age'', ''BMI'', ''SkinType_Oily'', ''SkinType_Sensitive'',
                    ''TrendType_Skincare'', ''HasAllergies''],
      df_rows = [(1, [FNum 40, FNum 31, FBool False, FBool True, FBool True, FInt 0])]\<rparr>"

definition gap_model :: "(nat, string, nat) MLModel" where
  "gap_model = new_MLModel gap_engine"

text \<open>
  A stand-in for the scikit-learn functions, to run the trainer on sample tables: the split
  keeps the row order and raises on an empty training partition.
\<close>

definition sample_split ::
  "frame \<Rightarrow> nat list \<Rightarrow> rat \<Rightarrow> nat \<Rightarrow> pyexc + (frame \<times> frame \<times> nat list \<times> nat list)" where
  "sample_split X y test_size random_state =
     (let n = length y; n_test = nat \<lceil>test_size * of_nat n\<rceil>; n_train = n - n_test
      in if n_train = 0 then Inl (ValueError ''the resulting train set will be empty'')
         else Inr (X\<lparr>df_rows := take n_train (df_rows X)\<rparr>,
                   X\<lparr>df_rows := drop n_train (df_rows X)\<rparr>,
                   take n_train y, drop n_train y))"

definition sample_sklearn :: "(nat, unit) sklearn" where
  "sample_sklearn =
     \<lparr> train_test_split = sample_split,
       RandomForestClassifier = (\<lambda>n_estimators random_state. 0),
       fit = (\<lambda>m X y. Inr (Suc m)),
       predict = (\<lambda>m a. case a of Table X \<Rightarrow> Inr (map (\<lambda>r. 0) (df_rows X))
                                  | Vector v \<Rightarrow> Inr [nat (sum_list v)]),
       accuracy_score = (\<lambda>y_true y_pred. Inr 1),
       classification_report = (\<lambda>y_true y_pred names. Inr ()),
       confusion_matrix = (\<lambda>y_true y_pred. Inr []) \<rparr>"

definition demo_model :: "(nat, string, nat) MLModel" where
  "demo_model = new_MLModel demo_engine"

definition bad_model :: "(nat, string, nat) MLModel" where
  "bad_model = new_MLModel bad_engine"

definition demo_frame :: frame where
  "demo_frame =
     \<lparr>df_columns = [''Age'', ''BMI'', ''SkinType_Oily'', ''SkinType_Sensitive'',
                    ''TrendType_Dietary'', ''TrendType_Skincare'', ''HasAllergies''],
      df_rows =
        [(0, [FNum 28, FNum 32, FBool False, FBool True, FBool False, FBool True, FInt 1]),
         (1, [FNum 28, FNum 32, FBool False, FBool True, FBool True, FBool False, FInt 1]),
         (2, [FNum 40, FNum 22, FBool True, FBool False, FBool False, FBool True, FInt 0]),
         (3, [FNum 40, FNum 22, FBool True, FBool False, FBool True, FBool False, FInt 0])]\<rparr>"

definition demo_prepared :: "(nat, string, nat) MLModel" where
  "demo_prepared =
     demo_model\<lparr>label_encoder := Some [''High Risk'', ''Medium Risk'', ''Safe''],
                 risk_df_cleaned := Some (range_index demo_rows)\<rparr>"

definition sparse_engine :: "(nat, string) RuleEngine" where
  "sparse_engine =
     \<lparr>users_df =
        [\<lparr>UserID = Some 5, Age = Some 33, BMI = Some 24, SkinType = None,
          Allergies = None, HormoneLevel = None\<rparr>],
      trends_df =
        [\<lparr>TrendName = Some ''Aloe Mask'', Type = None, KeyIngredients = Some ''Aloe''\<rparr>],
      ingredient_risk_df = []\<rparr>"

definition sparse_model :: "(nat, string, nat) MLModel" where
  "sparse_model = new_MLModel sparse_engine"

definition sparse_row :: "(nat, string) risk_row" where
  "sparse_row = make_row (users_df sparse_engine ! 0) (trends_df sparse_engine ! 0) ''Safe'' 0"

section \<open>Facts about the rule engine\<close>

lemma check_allergy_risk_range: "check_allergy_risk a i \<in> {0, 3}"
  by (simp add: check_allergy_risk_def Let_def)

lemma check_ingredient_risk_level_range:
  "check_ingredient_risk_level self i = Inr v \<Longrightarrow> v \<in> {0, 3}"
  by (auto simp: check_ingredient_risk_level_def Let_def split: sum.splits)

lemma check_ingredient_risk_level_error:
  "check_ingredient_risk_level self i = Inl e \<Longrightarrow>
     e = AttributeError \<and> \<not> text_column (map Ingredient (ingredient_risk_df self))"
  by (auto simp: check_ingredient_risk_level_def high_risk_ingredients_def Let_def
      split: sum.splits if_splits)

lemma check_ingredient_risk_level_float_column:
  "\<not> text_column (map Ingredient (ingredient_risk_df self)) \<Longrightarrow>
     check_ingredient_risk_level self i = Inl AttributeError"
  by (simp add: check_ingredient_risk_level_def high_risk_ingredients_def Let_def)

lemma check_ingredient_risk_level_text:
  "text_column (map Ingredient (ingredient_risk_df self)) \<Longrightarrow>
     \<exists>v. check_ingredient_risk_level self i = Inr v"
  by (simp add: check_ingredient_risk_level_def high_risk_ingredients_def Let_def)

lemma check_skincare_risk_range: "check_skincare_risk s t i = Inr v \<Longrightarrow> v \<in> {0, 2}"
  by (auto simp: check_skincare_risk_def split: if_splits sum.splits)

lemma check_diet_risk_range: "check_diet_risk b t i = Inr v \<Longrightarrow> v \<in> {0, 1}"
  by (auto simp: check_diet_risk_def split: if_splits sum.splits)

lemma check_skincare_risk_error: "check_skincare_risk s t i = Inl e \<Longrightarrow> e = AttributeError \<and> i = None"
  by (cases i) (auto simp: check_skincare_risk_def split: if_splits sum.splits)

lemma check_diet_risk_error: "check_diet_risk b t i = Inl e \<Longrightarrow> e = AttributeError \<and> i = None"
  by (cases i) (auto simp: check_diet_risk_def split: if_splits sum.splits)

lemma check_skincare_risk_text: "\<exists>v. check_skincare_risk s t (Some x) = Inr v"
  by (simp add: check_skincare_risk_def)

lemma check_diet_risk_text: "\<exists>v. check_diet_risk b t (Some x) = Inr v"
  by (simp add: check_diet_risk_def)

lemma assess_risk_efficient_Inr:
  "assess_risk_efficient self user trend = Inr (lvl, sc) \<Longrightarrow>
     \<exists>b c d. check_skincare_risk (SkinType user) (Type trend) (KeyIngredients trend) = Inr b \<and>
           check_diet_risk (BMI user) (Type trend) (KeyIngredients trend) = Inr c \<and>
           check_ingredient_risk_level self (KeyIngredients trend) = Inr d \<and>
           sc = max (check_allergy_risk (Allergies user) (KeyIngredients trend))
                  (max b (max c d)) \<and>
           (lvl, sc) = level_of sc"
proof -
  assume a: "assess_risk_efficient self user trend = Inr (lvl, sc)"
  let ?a = "check_allergy_risk (Allergies user) (KeyIngredients trend)"
  from a obtain b where b: "check_skincare_risk (SkinType user) (Type trend) (KeyIngredients trend) = Inr b"
    by (cases "check_skincare_risk (SkinType user) (Type trend) (KeyIngredients trend)")
       (simp_all add: assess_risk_efficient_def)
  from a b obtain c where c: "check_diet_risk (BMI user) (Type trend) (KeyIngredients trend) = Inr c"
    by (cases "check_diet_risk (BMI user) (Type trend) (KeyIngredients trend)")
       (simp_all add: assess_risk_efficient_def)
  from a b c obtain d where d: "check_ingredient_risk_level self (KeyIngredients trend) = Inr d"
    by (cases "check_ingredient_risk_level self (KeyIngredients trend)")
       (simp_all add: assess_risk_efficient_def)
  from a b c d have l: "level_of (max d (max c (max b ?a))) = (lvl, sc)"
    by (simp add: assess_risk_efficient_def)
  have s: "snd (level_of m) = m" for m by (simp add: level_of_def)
  from l s [of "max d (max c (max b ?a))"] have sc: "sc = max d (max c (max b ?a))" by simp
  have "sc = max ?a (max b (max c d))" unfolding sc by (simp add: max.commute max.left_commute)
  moreover have "(lvl, sc) = level_of sc" using l sc by simp
  ultimately show ?thesis using b c d by blast
qed

lemma assess_risk_efficient_error:
  "assess_risk_efficient self user trend = Inl e \<Longrightarrow> e = AttributeError"
  by (auto simp: assess_risk_efficient_def Let_def split: sum.splits
      dest: check_skincare_risk_error check_diet_risk_error check_ingredient_risk_level_error)

lemma assess_risk_efficient_text:
  assumes "KeyIngredients trend \<noteq> None"
      and "text_column (map Ingredient (ingredient_risk_df self))"
  shows "\<exists>r. assess_risk_efficient self user trend = Inr r"
proof -
  from assms(1) obtain x where x: "KeyIngredients trend = Some x" by auto
  from check_skincare_risk_text [of "SkinType user" "Type trend" x] x
  obtain b where b: "check_skincare_risk (SkinType user) (Type trend) (KeyIngredients trend) = Inr b"
    by auto
  from check_diet_risk_text [of "BMI user" "Type trend" x] x
  obtain c where c: "check_diet_risk (BMI user) (Type trend) (KeyIngredients trend) = Inr c"
    by auto
  from check_ingredient_risk_level_text [OF assms(2)]
  obtain d where d: "check_ingredient_risk_level self (KeyIngredients trend) = Inr d"
    by blast
  show ?thesis by (simp add: assess_risk_efficient_def b c d)
qed

lemma level_of_threshold: "sc \<in> {0, 1, 2, 3} \<Longrightarrow> (lvl, sc) = level_of sc \<Longrightarrow> threshold_consistent lvl sc"
  by (auto simp: level_of_def threshold_consistent_def split: if_splits)

lemma assess_risk_efficient_score_range:
  "assess_risk_efficient self user trend = Inr (lvl, sc) \<Longrightarrow> sc \<in> {0, 1, 2, 3}"
proof -
  assume a: "assess_risk_efficient self user trend = Inr (lvl, sc)"
  from assess_risk_efficient_Inr [OF a] obtain b c d where
    b: "check_skincare_risk (SkinType user) (Type trend) (KeyIngredients trend) = Inr b" and
    c: "check_diet_risk (BMI user) (Type trend) (KeyIngredients trend) = Inr c" and
    d: "check_ingredient_risk_level self (KeyIngredients trend) = Inr d" and
    sc: "sc = max (check_allergy_risk (Allergies user) (KeyIngredients trend))
                  (max b (max c d))"
    by blast
  have "check_allergy_risk (Allergies user) (KeyIngredients trend) \<in> {0, 3}"
    by (rule check_allergy_risk_range)
  moreover have "d \<in> {0, 3}" using d by (rule check_ingredient_risk_level_range)
  moreover have "b \<in> {0, 2}" using b by (rule check_skincare_risk_range)
  moreover have "c \<in> {0, 1}" using c by (rule check_diet_risk_range)
  ultimately show ?thesis unfolding sc by (auto simp: max_def)
qed

lemma assess_risk_efficient_threshold:
  "assess_risk_efficient self user trend = Inr (lvl, sc) \<Longrightarrow> threshold_consistent lvl sc"
  using assess_risk_efficient_score_range assess_risk_efficient_Inr level_of_threshold
  by metis

lemma trend_loop_Inr:
  "trend_loop self u ts acc = Inr rows \<Longrightarrow>
     \<exists>new. rows = acc @ new \<and> list_all2 (row_of self) (map (Pair u) ts) new"
proof (induction ts arbitrary: acc)
  case Nil
  then show ?case by simp
next
  case (Cons t ts)
  from Cons.prems obtain l s where
    a: "assess_risk_efficient self u t = Inr (l, s)" and
    r: "trend_loop self u ts (acc @ [make_row u t l s]) = Inr rows"
    by (auto split: sum.splits)
  from Cons.IH [OF r] obtain new where
    n: "rows = (acc @ [make_row u t l s]) @ new" "list_all2 (row_of self) (map (Pair u) ts) new"
    by blast
  have "row_of self (u, t) (make_row u t l s)"
    using a by (simp add: row_of_def make_row_def)
  with n have "rows = acc @ (make_row u t l s # new) \<and>
      list_all2 (row_of self) (map (Pair u) (t # ts)) (make_row u t l s # new)"
    by simp
  then show ?case by blast
qed

lemma user_loop_Inr:
  "user_loop self us acc = Inr rows \<Longrightarrow>
     \<exists>new. rows = acc @ new \<and> list_all2 (row_of self) (List.product us (trends_df self)) new"
proof (induction us arbitrary: acc)
  case Nil
  then show ?case by simp
next
  case (Cons u us)
  from Cons.prems obtain mid where
    m: "trend_loop self u (trends_df self) acc = Inr mid" and
    r: "user_loop self us mid = Inr rows"
    by (auto split: sum.splits)
  from trend_loop_Inr [OF m] obtain n1 where
    n1: "mid = acc @ n1" "list_all2 (row_of self) (map (Pair u) (trends_df self)) n1"
    by blast
  from Cons.IH [OF r] obtain n2 where
    n2: "rows = mid @ n2" "list_all2 (row_of self) (List.product us (trends_df self)) n2"
    by blast
  have "list_all2 (row_of self) (List.product (u # us) (trends_df self)) (n1 @ n2)"
    using n1(2) n2(2) by (simp add: list_all2_appendI)
  moreover have "rows = acc @ (n1 @ n2)"
    using n1(1) n2(1) by simp
  ultimately show ?case by blast
qed

lemma list_all2_right_mem: "list_all2 P xs ys \<Longrightarrow> y \<in> set ys \<Longrightarrow> \<exists>x\<in>set xs. P x y"
  by (induction rule: list_all2_induct) auto

lemma list_all2_left_mem: "list_all2 P xs ys \<Longrightarrow> x \<in> set xs \<Longrightarrow> \<exists>y\<in>set ys. P x y"
  by (induction rule: list_all2_induct) auto

lemma generate_risk_matrix_rows:
  "generate_risk_matrix self = Inr rows \<Longrightarrow>
     list_all2 (row_of self) (List.product (users_df self) (trends_df self)) rows"
  using user_loop_Inr [of self "users_df self" "[]" rows]
  by (auto simp: generate_risk_matrix_def)

lemma trend_loop_total:
  assumes "\<forall>t\<in>set ts. KeyIngredients t \<noteq> None"
      and "text_column (map Ingredient (ingredient_risk_df self))"
  shows "\<exists>rows. trend_loop self u ts acc = Inr rows"
  using assms(1)
proof (induction ts arbitrary: acc)
  case Nil
  then show ?case by simp
next
  case (Cons t ts)
  from Cons.prems have "KeyIngredients t \<noteq> None" by simp
  from assess_risk_efficient_text [OF this assms(2), of u]
  obtain l s where "assess_risk_efficient self u t = Inr (l, s)" by auto
  then show ?case using Cons by simp
qed

lemma user_loop_total:
  assumes "\<forall>t\<in>set (trends_df self). KeyIngredients t \<noteq> None"
      and "text_column (map Ingredient (ingredient_risk_df self))"
  shows "\<exists>rows. user_loop self us acc = Inr rows"
proof (induction us arbitrary: acc)
  case Nil
  then show ?case by simp
next
  case (Cons u us)
  from trend_loop_total [OF assms] obtain mid where
    "trend_loop self u (trends_df self) acc = Inr mid" by blast
  then show ?case using Cons by simp
qed

lemma demo_matrix: "generate_risk_matrix demo_engine = Inr demo_rows"
  by code_simp

lemma demo_assess: "assess_risk demo_engine (Some 1) (Some ''Acid Peel'') = Inr (''High Risk'', 3)"
  by code_simp

lemma assess_risk_Inr:
  "assess_risk self user_id trend_name = Inr res \<Longrightarrow>
     \<exists>u t. assess_risk_efficient self u t = Inr res"
  unfolding assess_risk_def by (simp split: sum.splits) blast

lemma generate_risk_matrix_row_of:
  "generate_risk_matrix self = Inr rows \<Longrightarrow> r \<in> set rows \<Longrightarrow>
     \<exists>p\<in>set (List.product (users_df self) (trends_df self)). row_of self p r"
  by (rule list_all2_right_mem [OF generate_risk_matrix_rows])

text \<open>
  Claim C1. Whatever \<open>assess_risk\<close> returns for a pair, and whatever a row of the matrix of
  \<open>generate_risk_matrix\<close> holds, the level is the threshold function of the score: Safe exactly
  for score 0, Medium Risk exactly for scores 1 and 2, High Risk exactly from score 3 on.
\<close>

theorem risk_level_is_threshold_of_score:
  "(assess_risk self user_id trend_name = Inr (lvl, sc) \<longrightarrow> threshold_consistent lvl sc) \<and>
   (generate_risk_matrix self = Inr rows \<longrightarrow>
      (\<forall>r\<in>set rows. threshold_consistent (row_RiskLevel r) (row_RiskScore r)))"
proof (intro conjI impI ballI)
  assume "assess_risk self user_id trend_name = Inr (lvl, sc)"
  from assess_risk_Inr [OF this] obtain u t where "assess_risk_efficient self u t = Inr (lvl, sc)"
    by blast
  then show "threshold_consistent lvl sc" by (rule assess_risk_efficient_threshold)
next
  fix r
  assume g: "generate_risk_matrix self = Inr rows" and r: "r \<in> set rows"
  from generate_risk_matrix_row_of [OF g r] obtain p where "row_of self p r"
    by blast
  then have "assess_risk_efficient self (fst p) (snd p) = Inr (row_RiskLevel r, row_RiskScore r)"
    by (simp add: row_of_def)
  then show "threshold_consistent (row_RiskLevel r) (row_RiskScore r)"
    by (rule assess_risk_efficient_threshold)
qed

text \<open>
  The thresholds of C1 on the sample tables.
\<close>

theorem risk_level_is_threshold_of_score_witness:
  "assess_risk demo_engine (Some 1) (Some ''Acid Peel'') = Inr (''High Risk'', 3) \<and>
   threshold_consistent ''High Risk'' 3 \<and>
   generate_risk_matrix demo_engine = Inr demo_rows \<and>
   list_all (\<lambda>r. threshold_consistent (row_RiskLevel r) (row_RiskScore r)) demo_rows"
  using risk_level_is_threshold_of_score
          [of demo_engine "Some 1" "Some ''Acid Peel''" "''High Risk''" 3 demo_rows]
        demo_matrix demo_assess
  by (simp add: list_all_iff)

text \<open>
  Claim C2. When the skincare, the diet and the banned-ingredient check return, the
  assessment returns, and its score is the maximum of the four rule outputs; a pair on which
  the allergy rule gives 3 and the skincare rule gives 2 is assessed High Risk with score 3,
  not 5.
\<close>

theorem risk_score_is_max_of_rules:
  assumes "check_skincare_risk (SkinType user) (Type trend) (KeyIngredients trend) = Inr b"
      and "check_diet_risk (BMI user) (Type trend) (KeyIngredients trend) = Inr c"
      and "check_ingredient_risk_level self (KeyIngredients trend) = Inr d"
  shows "(\<exists>lvl. assess_risk_efficient self user trend =
            Inr (lvl, Max {check_allergy_risk (Allergies user) (KeyIngredients trend), b, c, d})) \<and>
         (check_allergy_risk (Allergies user) (KeyIngredients trend) = 3 \<and> b = 2 \<longrightarrow>
            assess_risk_efficient self user trend = Inr (''High Risk'', 3))"
proof -
  let ?a = "check_allergy_risk (Allergies user) (KeyIngredients trend)"
  have e: "assess_risk_efficient self user trend = Inr (level_of (max d (max c (max b ?a))))"
    using assms by (simp add: assess_risk_efficient_def)
  have m: "max d (max c (max b ?a)) = Max {?a, b, c, d}"
    by (simp add: max.commute max.left_commute)
  have l: "level_of k = (fst (level_of k), k)" for k
    by (simp add: level_of_def)
  have first: "\<exists>lvl. assess_risk_efficient self user trend = Inr (lvl, Max {?a, b, c, d})"
    using e l [of "max d (max c (max b ?a))"] unfolding m by metis
  have second: "assess_risk_efficient self user trend = Inr (''High Risk'', 3)"
    if a3: "?a = 3" and b2: "b = 2"
  proof -
    have "c \<in> {0, 1}" using assms(2) by (rule check_diet_risk_range)
    moreover have "d \<in> {0, 3}" using assms(3) by (rule check_ingredient_risk_level_range)
    ultimately have "max d (max c (max b ?a)) = 3"
      using a3 b2 by auto
    then show ?thesis using e by (simp add: level_of_def)
  qed
  from first second show ?thesis by blast
qed

lemma demo_rules:
  "check_skincare_risk (SkinType (demo_users ! 0)) (Type (demo_trends ! 0))
     (KeyIngredients (demo_trends ! 0)) = Inr 2"
  "check_diet_risk (BMI (demo_users ! 0)) (Type (demo_trends ! 0))
     (KeyIngredients (demo_trends ! 0)) = Inr 0"
  "check_ingredient_risk_level demo_engine (KeyIngredients (demo_trends ! 0)) = Inr 0"
  "check_allergy_risk (Allergies (demo_users ! 0)) (KeyIngredients (demo_trends ! 0)) = 3"
  by code_simp+

text \<open>
  C2 on a sample pair on which both the allergy and the skincare rule fire.
\<close>

theorem risk_score_is_max_of_rules_witness:
  "check_allergy_risk (Allergies (demo_users ! 0)) (KeyIngredients (demo_trends ! 0)) = 3 \<and>
   check_skincare_risk (SkinType (demo_users ! 0)) (Type (demo_trends ! 0))
     (KeyIngredients (demo_trends ! 0)) = Inr 2 \<and>
   check_diet_risk (BMI (demo_users ! 0)) (Type (demo_trends ! 0))
     (KeyIngredients (demo_trends ! 0)) = Inr 0 \<and>
   check_ingredient_risk_level demo_engine (KeyIngredients (demo_trends ! 0)) = Inr 0 \<and>
   assess_risk_efficient demo_engine (demo_users ! 0) (demo_trends ! 0) = Inr (''High Risk'', 3)"
  using risk_score_is_max_of_rules [OF demo_rules(1) demo_rules(2) demo_rules(3)] demo_rules
  by simp

lemma row_of_keys: "row_of self (u, t) r \<Longrightarrow> row_keys r = (UserID u, TrendName t)"
proof -
  assume "row_of self (u, t) r"
  then have "r = make_row u t (row_RiskLevel r) (row_RiskScore r)"
    by (simp add: row_of_def)
  then have "row_keys r = row_keys (make_row u t (row_RiskLevel r) (row_RiskScore r))"
    by simp
  then show ?thesis by (simp add: row_keys_def make_row_def)
qed

lemma list_all2_row_keys:
  "list_all2 (row_of self) ps rows \<Longrightarrow>
     map row_keys rows = map (\<lambda>p. (UserID (fst p), TrendName (snd p))) ps"
proof (induction rule: list_all2_induct)
  case Nil
  then show ?case by simp
next
  case (Cons p ps r rows)
  from Cons(1) have "row_keys r = (UserID (fst p), TrendName (snd p))"
    using row_of_keys [of self "fst p" "snd p" r] by simp
  with Cons show ?case by simp
qed

lemma product_map_both:
  "map (\<lambda>p. (f (fst p), g (snd p))) (List.product xs ys) = List.product (map f xs) (map g ys)"
  by (induction xs) (simp_all add: comp_def)

lemma generate_risk_matrix_keys:
  "generate_risk_matrix self = Inr rows \<Longrightarrow>
     map row_keys rows = List.product (map UserID (users_df self)) (map TrendName (trends_df self))"
  using list_all2_row_keys [OF generate_risk_matrix_rows] product_map_both by metis

lemma generate_risk_matrix_total:
  assumes "\<forall>t\<in>set (trends_df self). KeyIngredients t \<noteq> None"
      and "text_column (map Ingredient (ingredient_risk_df self))"
  shows "\<exists>rows. generate_risk_matrix self = Inr rows"
  unfolding generate_risk_matrix_def using assms by (rule user_loop_total)

text \<open>
  What holds of the matrix where it is generated: one row per pair of the product of Users
  and Trends, users outermost, both in table order; so as many rows as the product of the
  table sizes, and no key pair twice when the keys of both tables are unique. It is
  generated when no trend misses its ingredient text and the Ingredient column is a text
  column.
\<close>

lemma generate_risk_matrix_cartesian:
  "((\<forall>t\<in>set (trends_df self). KeyIngredients t \<noteq> None) \<and>
    text_column (map Ingredient (ingredient_risk_df self)) \<longrightarrow>
      (\<exists>rows. generate_risk_matrix self = Inr rows)) \<and>
   (generate_risk_matrix self = Inr rows \<longrightarrow>
      map row_keys rows = List.product (map UserID (users_df self)) (map TrendName (trends_df self)) \<and>
      list_all2 (row_of self) (List.product (users_df self) (trends_df self)) rows \<and>
      length rows = length (users_df self) * length (trends_df self) \<and>
      (distinct (map UserID (users_df self)) \<and> distinct (map TrendName (trends_df self)) \<longrightarrow>
         distinct (map row_keys rows)))"
proof (intro conjI impI)
  assume "(\<forall>t\<in>set (trends_df self). KeyIngredients t \<noteq> None) \<and>
    text_column (map Ingredient (ingredient_risk_df self))"
  then show "\<exists>rows. generate_risk_matrix self = Inr rows"
    using generate_risk_matrix_total by blast
next
  assume g: "generate_risk_matrix self = Inr rows"
  show k: "map row_keys rows =
      List.product (map UserID (users_df self)) (map TrendName (trends_df self))"
    using g by (rule generate_risk_matrix_keys)
  show a: "list_all2 (row_of self) (List.product (users_df self) (trends_df self)) rows"
    using g by (rule generate_risk_matrix_rows)
  from list_all2_lengthD [OF a]
  show "length rows = length (users_df self) * length (trends_df self)"
    by (simp add: length_product)
  assume "distinct (map UserID (users_df self)) \<and> distinct (map TrendName (trends_df self))"
  then show "distinct (map row_keys rows)"
    unfolding k by (simp add: distinct_product)
qed

text \<open>
  Claim C3 fails on the code. The tables of \<open>bad_engine\<close> have one user and one trend, so
  that the matrix should have one row; the trend has no ingredient text, the skincare check
  raises AttributeError, and no matrix is returned. On the sample tables, whose texts are
  all there, the matrix has its four rows in product order.
\<close>

theorem generate_risk_matrix_aborts:
  "length (users_df bad_engine) * length (trends_df bad_engine) = 1 \<and>
   distinct (map UserID (users_df bad_engine)) \<and>
   distinct (map TrendName (trends_df bad_engine)) \<and>
   generate_risk_matrix bad_engine = Inl AttributeError \<and>
   generate_risk_matrix demo_engine = Inr demo_rows \<and>
   map row_keys demo_rows =
     [(Some 1, Some ''Acid Peel''), (Some 1, Some ''Detox Tea''),
      (Some 2, Some ''Acid Peel''), (Some 2, Some ''Detox Tea'')]"
  by code_simp

lemma filter_first_match:
  "\<forall>x\<in>set xs. \<not> P x \<Longrightarrow> P y \<Longrightarrow> iloc0 (filter P (xs @ y # zs)) = Inr y"
  by (induction xs) simp_all

lemma filter_no_match: "\<forall>x\<in>set xs. \<not> P x \<Longrightarrow> iloc0 (filter P xs) = Inl IndexError"
  by (induction xs) simp_all

lemma filter_some_match: "\<exists>x\<in>set xs. P x \<Longrightarrow> \<exists>y. iloc0 (filter P xs) = Inr y"
  by (induction xs) auto

lemma filter_unique_key:
  "distinct (map f xs) \<Longrightarrow> x \<in> set xs \<Longrightarrow> cell_eq (f x) k \<Longrightarrow>
     iloc0 (filter (\<lambda>y. cell_eq (f y) k) xs) = Inr x"
proof (induction xs)
  case Nil
  then show ?case by simp
next
  case (Cons a xs)
  show ?case
  proof (cases "a = x")
    case True
    with Cons.prems show ?thesis by simp
  next
    case False
    with Cons.prems have mem: "x \<in> set xs" by simp
    have "f a \<noteq> f x" using Cons.prems(1) mem by auto
    then have "\<not> cell_eq (f a) k" using Cons.prems(3) by (auto simp: cell_eq_def)
    then show ?thesis using Cons.IH Cons.prems mem by simp
  qed
qed

text \<open>
  The lookup with repeated keys: \<open>assess_risk\<close> assesses the first matching user against the
  first matching trend, whatever rows follow them. The lookup itself raises no IndexError;
  the assessment returns when the trend has its ingredient text and the Ingredient column
  is a text column.
\<close>

lemma assess_risk_uses_first_match:
  assumes "users_df self = us1 @ u # us2"
      and "\<forall>x\<in>set us1. \<not> cell_eq (UserID x) user_id"
      and "cell_eq (UserID u) user_id"
      and "trends_df self = ts1 @ t # ts2"
      and "\<forall>x\<in>set ts1. \<not> cell_eq (TrendName x) trend_name"
      and "cell_eq (TrendName t) trend_name"
  shows "assess_risk self user_id trend_name = assess_risk_efficient self u t \<and>
         assess_risk self user_id trend_name \<noteq> Inl IndexError \<and>
         (KeyIngredients t \<noteq> None \<and> text_column (map Ingredient (ingredient_risk_df self)) \<longrightarrow>
            (\<exists>res. assess_risk self user_id trend_name = Inr res))"
proof -
  have fu: "iloc0 (filter (\<lambda>x. cell_eq (UserID x) user_id) (users_df self)) = Inr u"
    unfolding assms(1) using assms(2,3) by (rule filter_first_match)
  have ft: "iloc0 (filter (\<lambda>x. cell_eq (TrendName x) trend_name) (trends_df self)) = Inr t"
    unfolding assms(4) using assms(5,6) by (rule filter_first_match)
  have e: "assess_risk self user_id trend_name = assess_risk_efficient self u t"
    by (simp add: assess_risk_def fu ft)
  have "assess_risk_efficient self u t \<noteq> Inl IndexError"
    using assess_risk_efficient_error [of self u t IndexError] by auto
  moreover have "\<exists>res. assess_risk_efficient self u t = Inr res"
    if "KeyIngredients t \<noteq> None \<and> text_column (map Ingredient (ingredient_risk_df self))"
    using that assess_risk_efficient_text by blast
  ultimately show ?thesis unfolding e by blast
qed

text \<open>
  Claim C10 fails on the code. In the tables of \<open>dup_bad_engine\<close> the user key 7 and the
  trend name Peel are carried by two rows each. \<open>assess_risk\<close> takes the first of each: the
  first trend has no ingredient text, and the call fails with AttributeError, where the
  second trend would have been assessed. In the tables of \<open>dup_engine\<close>, whose texts are all
  there, the answer is that of the first rows.
\<close>

theorem assess_risk_duplicate_keys_raises:
  "map UserID (users_df dup_bad_engine) = [Some 7, Some 7] \<and>
   map TrendName (trends_df dup_bad_engine) = [Some ''Peel'', Some ''Peel''] \<and>
   assess_risk dup_bad_engine (Some 7) (Some ''Peel'') = Inl AttributeError \<and>
   assess_risk_efficient dup_bad_engine (users_df dup_bad_engine ! 0)
     (trends_df dup_bad_engine ! 0) = Inl AttributeError \<and>
   assess_risk_efficient dup_bad_engine (users_df dup_bad_engine ! 1)
     (trends_df dup_bad_engine ! 1) = Inr (''Safe'', 0) \<and>
   assess_risk dup_engine (Some 7) (Some ''Peel'') = Inr (''Medium Risk'', 2) \<and>
   assess_risk_efficient dup_engine (users_df dup_engine ! 1) (trends_df dup_engine ! 1) =
     Inr (''Safe'', 0)"
  by code_simp

text \<open>
  Claim C5 fails on the code. With the ingredient text missing, the skincare check and the
  diet check raise AttributeError, and so do the single assessment and the whole matrix; the
  two tokenising checks read a missing text as the token \<open>nan\<close>, so that a user without
  allergy text and a trend without ingredient text match.
\<close>

theorem missing_ingredients_raise:
  "check_skincare_risk (Some ''Sensitive'') (Some ''Skincare'') None = Inl AttributeError \<and>
   check_diet_risk (Some 32) (Some ''Dietary'') None = Inl AttributeError \<and>
   assess_risk bad_engine (Some 1) (Some ''Mystery Serum'') = Inl AttributeError \<and>
   generate_risk_matrix bad_engine = Inl AttributeError \<and>
   tokens None = [''nan''] \<and>
   check_allergy_risk None None = 3"
  by code_simp

lemma row_of_levels:
  "row_of self (u, t) r \<Longrightarrow>
     assess_risk_efficient self u t = Inr (row_RiskLevel r, row_RiskScore r)"
  by (simp add: row_of_def)

lemma assess_risk_unique_keys:
  assumes d: "distinct (map UserID (users_df self))" "distinct (map TrendName (trends_df self))"
      and u: "u \<in> set (users_df self)" "cell_eq (UserID u) user_id"
      and t: "t \<in> set (trends_df self)" "cell_eq (TrendName t) trend_name"
  shows "assess_risk self user_id trend_name = assess_risk_efficient self u t"
proof -
  have fu: "iloc0 (filter (\<lambda>x. cell_eq (UserID x) user_id) (users_df self)) = Inr u"
    using d(1) u by (rule filter_unique_key)
  have ft: "iloc0 (filter (\<lambda>x. cell_eq (TrendName x) trend_name) (trends_df self)) = Inr t"
    using d(2) t by (rule filter_unique_key)
  show ?thesis by (simp add: assess_risk_def fu ft)
qed

lemma assess_risk_unknown:
  assumes "(\<forall>u\<in>set (users_df self). \<not> cell_eq (UserID u) user_id) \<or>
           (\<forall>t\<in>set (trends_df self). \<not> cell_eq (TrendName t) trend_name)"
  shows "assess_risk self user_id trend_name = Inl IndexError"
proof (cases "\<forall>u\<in>set (users_df self). \<not> cell_eq (UserID u) user_id")
  case True
  then have "iloc0 (filter (\<lambda>x. cell_eq (UserID x) user_id) (users_df self)) = Inl IndexError"
    by (rule filter_no_match)
  then show ?thesis by (simp add: assess_risk_def)
next
  case False
  then have "\<exists>x\<in>set (users_df self). cell_eq (UserID x) user_id" by blast
  from filter_some_match [of "users_df self" "\<lambda>x. cell_eq (UserID x) user_id", OF this]
  obtain u where fu: "iloc0 (filter (\<lambda>x. cell_eq (UserID x) user_id) (users_df self)) = Inr u"
    by blast
  from False assms have "\<forall>t\<in>set (trends_df self). \<not> cell_eq (TrendName t) trend_name"
    by blast
  then have "iloc0 (filter (\<lambda>x. cell_eq (TrendName x) trend_name) (trends_df self)) = Inl IndexError"
    by (rule filter_no_match)
  then show ?thesis by (simp add: assess_risk_def fu)
qed

text \<open>
  Claim C4. With unique keys in both tables, \<open>assess_risk\<close> returns the level and score of
  each matrix row whose keys are the ones asked for, and such a row exists when both keys are
  in their tables; when the user key or the trend name is in no row of its table, the lookup
  fails with IndexError.
\<close>

theorem assess_risk_agrees_with_matrix:
  "(generate_risk_matrix self = Inr rows \<and>
    distinct (map UserID (users_df self)) \<and> distinct (map TrendName (trends_df self)) \<longrightarrow>
      (\<forall>r\<in>set rows.
         cell_eq (row_UserID r) user_id \<and> cell_eq (row_TrendName r) trend_name \<longrightarrow>
           assess_risk self user_id trend_name = Inr (row_RiskLevel r, row_RiskScore r)) \<and>
      ((\<exists>u\<in>set (users_df self). cell_eq (UserID u) user_id) \<and>
       (\<exists>t\<in>set (trends_df self). cell_eq (TrendName t) trend_name) \<longrightarrow>
         (\<exists>r\<in>set rows. cell_eq (row_UserID r) user_id \<and> cell_eq (row_TrendName r) trend_name))) \<and>
   ((\<forall>u\<in>set (users_df self). \<not> cell_eq (UserID u) user_id) \<or>
    (\<forall>t\<in>set (trends_df self). \<not> cell_eq (TrendName t) trend_name) \<longrightarrow>
      assess_risk self user_id trend_name = Inl IndexError)"
proof (intro conjI impI ballI)
  assume "(\<forall>u\<in>set (users_df self). \<not> cell_eq (UserID u) user_id) \<or>
          (\<forall>t\<in>set (trends_df self). \<not> cell_eq (TrendName t) trend_name)"
  then show "assess_risk self user_id trend_name = Inl IndexError"
    by (rule assess_risk_unknown)
next
  fix r
  assume h: "generate_risk_matrix self = Inr rows \<and>
    distinct (map UserID (users_df self)) \<and> distinct (map TrendName (trends_df self))"
    and r: "r \<in> set rows"
    and k: "cell_eq (row_UserID r) user_id \<and> cell_eq (row_TrendName r) trend_name"
  from h have g: "generate_risk_matrix self = Inr rows" by simp
  from generate_risk_matrix_row_of [OF g r] obtain u t where
    p: "(u, t) \<in> set (List.product (users_df self) (trends_df self))" and ro: "row_of self (u, t) r"
    by auto
  from row_of_keys [OF ro] have "row_UserID r = UserID u" "row_TrendName r = TrendName t"
    by (simp_all add: row_keys_def)
  with k have ku: "cell_eq (UserID u) user_id" and kt: "cell_eq (TrendName t) trend_name"
    by simp_all
  from p have mu: "u \<in> set (users_df self)" and mt: "t \<in> set (trends_df self)" by simp_all
  have "assess_risk self user_id trend_name = assess_risk_efficient self u t"
    using h mu ku mt kt by (simp add: assess_risk_unique_keys)
  then show "assess_risk self user_id trend_name = Inr (row_RiskLevel r, row_RiskScore r)"
    using row_of_levels [OF ro] by simp
next
  assume h: "generate_risk_matrix self = Inr rows \<and>
    distinct (map UserID (users_df self)) \<and> distinct (map TrendName (trends_df self))"
    and e: "(\<exists>u\<in>set (users_df self). cell_eq (UserID u) user_id) \<and>
       (\<exists>t\<in>set (trends_df self). cell_eq (TrendName t) trend_name)"
  from e obtain u t where mu: "u \<in> set (users_df self)" and ku: "cell_eq (UserID u) user_id"
    and mt: "t \<in> set (trends_df self)" and kt: "cell_eq (TrendName t) trend_name" by blast
  from h have g: "generate_risk_matrix self = Inr rows" by simp
  have "(u, t) \<in> set (List.product (users_df self) (trends_df self))" using mu mt by simp
  from list_all2_left_mem [OF generate_risk_matrix_rows [OF g] this]
  obtain r where r: "r \<in> set rows" and ro: "row_of self (u, t) r" by blast
  from row_of_keys [OF ro] have "row_UserID r = UserID u" "row_TrendName r = TrendName t"
    by (simp_all add: row_keys_def)
  with ku kt have "cell_eq (row_UserID r) user_id \<and> cell_eq (row_TrendName r) trend_name"
    by simp
  with r show "\<exists>r\<in>set rows. cell_eq (row_UserID r) user_id \<and> cell_eq (row_TrendName r) trend_name"
    by (rule bexI [rotated])
qed

text \<open>
  C4 on the sample tables: a known pair, and an unknown user.
\<close>

theorem assess_risk_agrees_with_matrix_witness:
  "generate_risk_matrix demo_engine = Inr demo_rows \<and>
   distinct (map UserID (users_df demo_engine)) \<and>
   distinct (map TrendName (trends_df demo_engine)) \<and>
   demo_rows ! 1 \<in> set demo_rows \<and>
   cell_eq (row_UserID (demo_rows ! 1)) (Some 1) \<and>
   cell_eq (row_TrendName (demo_rows ! 1)) (Some ''Detox Tea'') \<and>
   assess_risk demo_engine (Some 1) (Some ''Detox Tea'') = Inr (''Medium Risk'', 1) \<and>
   list_all (\<lambda>u. \<not> cell_eq (UserID u) (Some 9)) (users_df demo_engine) \<and>
   assess_risk demo_engine (Some 9) (Some ''Detox Tea'') = Inl IndexError"
proof -
  have u: "map UserID (users_df demo_engine) = [Some 1, Some 2]"
    by (simp add: demo_engine_def demo_users_def)
  have n: "map TrendName (trends_df demo_engine) = [Some ''Acid Peel'', Some ''Detox Tea'']"
    by (simp add: demo_engine_def demo_trends_def)
  have d: "distinct (map UserID (users_df demo_engine))"
          "distinct (map TrendName (trends_df demo_engine))"
    unfolding u n by simp_all
  have m: "demo_rows ! 1 \<in> set demo_rows" by (simp add: demo_rows_def)
  have k: "cell_eq (row_UserID (demo_rows ! 1)) (Some 1)"
          "cell_eq (row_TrendName (demo_rows ! 1)) (Some ''Detox Tea'')"
    by (simp_all add: demo_rows_def make_row_def demo_users_def demo_trends_def cell_eq_def)
  have l: "row_RiskLevel (demo_rows ! 1) = ''Medium Risk''" "row_RiskScore (demo_rows ! 1) = 1"
    by (simp_all add: demo_rows_def make_row_def)
  have a: "\<forall>u\<in>set (users_df demo_engine). \<not> cell_eq (UserID u) (Some 9)"
    by (simp add: demo_engine_def demo_users_def cell_eq_def)
  have p: "assess_risk demo_engine (Some 1) (Some ''Detox Tea'') = Inr (''Medium Risk'', 1)"
    using assess_risk_agrees_with_matrix [of demo_engine demo_rows "Some 1" "Some ''Detox Tea''"]
      demo_matrix d m k l by auto
  have q: "assess_risk demo_engine (Some 9) (Some ''Detox Tea'') = Inl IndexError"
    using assess_risk_agrees_with_matrix [of demo_engine demo_rows "Some 9" "Some ''Detox Tea''"] a
    by blast
  from demo_matrix d m k p a q show ?thesis by (simp add: list_all_iff)
qed

section \<open>Facts about the model trainer\<close>

lemma position_append_new: "x \<notin> set xs \<Longrightarrow> position (xs @ [x]) x = length xs"
  by (induction xs) auto

lemma position_mem: "x \<in> set cs \<Longrightarrow> position cs x < length cs \<and> cs ! position cs x = x"
  by (induction cs) auto

lemma dummies_length: "length (dummies cats x) = length cats"
  by (simp add: dummies_def)

lemma dummies_no_nan: "FNaN \<notin> set (dummies cats x)"
  by (auto simp: dummies_def)

lemma has_allergies_name_fresh:
  "''HasAllergies'' \<notin> set ([''Age'', ''BMI''] @ map (\<lambda>c. ''SkinType_'' @ c) skin
      @ map (\<lambda>c. ''TrendType_'' @ c) kind)"
  by auto

lemma allergies_name_absent:
  "''Allergies'' \<notin> set ([''Age'', ''BMI''] @ map (\<lambda>c. ''SkinType_'' @ c) skin
      @ map (\<lambda>c. ''TrendType_'' @ c) kind @ [''HasAllergies''])"
  by auto

lemma preprocess_features_columns:
  "''HasAllergies'' \<in> set (df_columns (preprocess_features X)) \<and>
   ''Allergies'' \<notin> set (df_columns (preprocess_features X))"
  unfolding preprocess_features_def Let_def
  using allergies_name_absent by simp

lemma preprocess_features_has_allergies:
  "column (preprocess_features X) ''HasAllergies'' =
     Inr (map (\<lambda>ix. FInt (has_allergies (f_Allergies (snd ix)))) X)"
proof -
  define skin where "skin = categories (map (\<lambda>ix. f_SkinType (snd ix)) X)"
  define kind where "kind = categories (map (\<lambda>ix. f_TrendType (snd ix)) X)"
  define pre where "pre = [''Age'', ''BMI''] @ map (\<lambda>c. ''SkinType_'' @ c) skin
      @ map (\<lambda>c. ''TrendType_'' @ c) kind"
  define vals where "vals = (\<lambda>ix :: nat \<times> features.
      [num_value (f_Age (snd ix)), num_value (f_BMI (snd ix))]
        @ dummies skin (f_SkinType (snd ix)) @ dummies kind (f_TrendType (snd ix)))"
  have cols: "df_columns (preprocess_features X) = pre @ [''HasAllergies'']"
    by (simp add: preprocess_features_def Let_def pre_def skin_def kind_def)
  have rws: "df_rows (preprocess_features X) =
      map (\<lambda>ix. (fst ix, vals ix @ [FInt (has_allergies (f_Allergies (snd ix)))])) X"
    by (simp add: preprocess_features_def Let_def vals_def skin_def kind_def)
  have fresh: "''HasAllergies'' \<notin> set pre"
    unfolding pre_def by (rule has_allergies_name_fresh)
  have pos: "position (pre @ [''HasAllergies'']) ''HasAllergies'' = length pre"
    using fresh by (rule position_append_new)
  have len: "length (vals ix) = length pre" for ix
    by (simp add: vals_def pre_def dummies_length)
  have "(vals ix @ [v]) ! length pre = v" for ix v
    using len [of ix] by (metis nth_append_length)
  then show ?thesis
    by (simp add: column_def cols rws pos comp_def)
qed

text \<open>
  Claim C8, amended. The HasAllergies column is 0 in the rows whose Allergies value, printed
  and lowercased, is the text \<open>none\<close> or \<open>nan\<close> (as a missing value prints), and 1 in all
  others; the processed table has no Allergies column.
\<close>

theorem has_allergies_column:
  "column (preprocess_features X) ''HasAllergies'' =
     Inr (map (\<lambda>ix. FInt (if lower (py_str (f_Allergies (snd ix))) \<in> {''none'', ''nan''}
                          then 0 else 1)) X) \<and>
   ''Allergies'' \<notin> set (df_columns (preprocess_features X)) \<and>
   column (preprocess_features X) ''Allergies'' = Inl KeyError"
proof -
  have "has_allergies x = (if lower (py_str x) \<in> {''none'', ''nan''} then 0 else 1)" for x
    by (simp add: has_allergies_def)
  then have "column (preprocess_features X) ''HasAllergies'' =
     Inr (map (\<lambda>ix. FInt (if lower (py_str (f_Allergies (snd ix))) \<in> {''none'', ''nan''}
                          then 0 else 1)) X)"
    using preprocess_features_has_allergies [of X] by simp
  moreover have a: "''Allergies'' \<notin> set (df_columns (preprocess_features X))"
    using preprocess_features_columns by blast
  moreover have "column (preprocess_features X) ''Allergies'' = Inl KeyError"
    using a by (simp add: column_def)
  ultimately show ?thesis by blast
qed

lemma blank_allergies_flags:
  "map (\<lambda>ix. FInt (if lower (py_str (f_Allergies (snd ix))) \<in> {''none'', ''nan''}
                   then 0 else 1)) blank_allergies = [FInt 1, FInt 1, FInt 0]"
  by code_simp

text \<open>
  The amended C8 on three sample rows.
\<close>

theorem has_allergies_column_witness:
  "column (preprocess_features blank_allergies) ''HasAllergies'' = Inr [FInt 1, FInt 1, FInt 0] \<and>
   column (preprocess_features blank_allergies) ''Allergies'' = Inl KeyError"
  using has_allergies_column [of blank_allergies] blank_allergies_flags by simp

text \<open>
  Claim C8 as stated fails: for empty and for blank allergy text the token set is empty,
  and HasAllergies is 1.
\<close>

theorem has_allergies_blank_counterexample:
  "column (preprocess_features blank_allergies) ''HasAllergies'' = Inr [FInt 1, FInt 1, FInt 0] \<and>
   normalized_allergy_tokens (f_Allergies (snd (blank_allergies ! 0))) = [] \<and>
   normalized_allergy_tokens (f_Allergies (snd (blank_allergies ! 1))) = []"
  by code_simp

text \<open>
  Claim C6 fails on the code in its second half. Without a model \<open>predict_risk\<close> raises;
  with one it asks the model about the fixed array \<open>[1, 0, 1]\<close>, so its result is the same
  for any two pairs of feature vectors.
\<close>

theorem predict_risk_placeholder:
  "predict_risk sk self user_features trend_features =
     predict_risk sk self other_user_features other_trend_features \<and>
   predict_risk sk (self\<lparr>model := None\<rparr>) user_features trend_features =
     Inl (PyException ''Model not trained yet.'') \<and>
   predict_risk sk (self\<lparr>model := Some m\<rparr>) user_features trend_features =
     predict sk m (Vector [1, 0, 1])"
  by (simp add: predict_risk_def)

lemma range_index_nth: "range_index xs = map (\<lambda>i. (i, xs ! i)) [0..<length xs]"
  unfolding range_index_def by (rule nth_equalityI) simp_all

lemma preprocess_row_nan:
  "(FNaN \<notin> set ([num_value a, num_value b] @ dummies skin s @ dummies kind k @ [FInt h]))
     = (a \<noteq> None \<and> b \<noteq> None)"
  using dummies_no_nan [of skin s] dummies_no_nan [of kind k]
  by (cases a; cases b) simp_all

lemma dropna_preprocess_labels:
  "map fst (df_rows (dropna (preprocess_features X))) =
     map fst (filter (\<lambda>ix. f_Age (snd ix) \<noteq> None \<and> f_BMI (snd ix) \<noteq> None) X)"
proof -
  define skin where "skin = categories (map (\<lambda>ix. f_SkinType (snd ix)) X)"
  define kind where "kind = categories (map (\<lambda>ix. f_TrendType (snd ix)) X)"
  define build where "build = (\<lambda>ix :: nat \<times> features. (fst ix,
      [num_value (f_Age (snd ix)), num_value (f_BMI (snd ix))]
        @ dummies skin (f_SkinType (snd ix)) @ dummies kind (f_TrendType (snd ix))
        @ [FInt (has_allergies (f_Allergies (snd ix)))]))"
  have rws: "df_rows (preprocess_features X) = map build X"
    by (simp add: preprocess_features_def Let_def build_def skin_def kind_def)
  have nan: "(FNaN \<notin> set (snd (build ix))) = (f_Age (snd ix) \<noteq> None \<and> f_BMI (snd ix) \<noteq> None)"
    for ix
    unfolding build_def snd_conv by (rule preprocess_row_nan)
  have f: "fst (build ix) = fst ix" for ix by (simp add: build_def)
  have "df_rows (dropna (preprocess_features X)) =
      map build (filter (\<lambda>ix. f_Age (snd ix) \<noteq> None \<and> f_BMI (snd ix) \<noteq> None) X)"
    by (simp add: dropna_def rws filter_map comp_def nan)
  then show ?thesis by (simp add: comp_def f)
qed

lemma labels_of_filter:
  "map fst (filter Q (map (\<lambda>i. (i, g i)) ns)) = filter (\<lambda>i. Q (i, g i)) ns"
  by (induction ns) simp_all

lemma dropna_preprocess_kept:
  "map fst (df_rows (dropna (preprocess_features (range_index (map select_features risk_df)))))
     = kept_labels risk_df"
proof -
  have "map fst (df_rows (dropna (preprocess_features (range_index (map select_features risk_df)))))
      = filter (\<lambda>i. f_Age (map select_features risk_df ! i) \<noteq> None \<and>
                    f_BMI (map select_features risk_df ! i) \<noteq> None) [0..<length risk_df]"
    unfolding dropna_preprocess_labels range_index_nth
    using labels_of_filter [of "\<lambda>ix. f_Age (snd ix) \<noteq> None \<and> f_BMI (snd ix) \<noteq> None"
                              "\<lambda>i. map select_features risk_df ! i" "[0..<length risk_df]"]
    by simp
  also have "\<dots> = kept_labels risk_df"
    unfolding kept_labels_def
    by (rule filter_cong) (simp_all add: select_features_def)
  finally show ?thesis .
qed

lemma kept_labels_bound: "i \<in> set (kept_labels risk_df) \<Longrightarrow> i < length risk_df"
  by (simp add: kept_labels_def)

lemma loc_in_range: "\<forall>i\<in>set ns. i < length xs \<Longrightarrow> loc xs ns = Inr (map (\<lambda>i. xs ! i) ns)"
  by (induction ns) simp_all

lemma loc_kept:
  "loc (map f risk_df) (kept_labels risk_df) = Inr (map (\<lambda>i. f (risk_df ! i)) (kept_labels risk_df))"
proof -
  have "loc (map f risk_df) (kept_labels risk_df) =
      Inr (map (\<lambda>i. map f risk_df ! i) (kept_labels risk_df))"
    by (rule loc_in_range) (simp add: kept_labels_bound)
  moreover have "map (\<lambda>i. map f risk_df ! i) (kept_labels risk_df) =
      map (\<lambda>i. f (risk_df ! i)) (kept_labels risk_df)"
    by (rule map_cong) (simp_all add: kept_labels_bound)
  ultimately show ?thesis by simp
qed

lemma fit_transform_decode:
  assumes "k < length ys"
  shows "snd (fit_transform ys) ! k < length (fst (fit_transform ys)) \<and>
         fst (fit_transform ys) ! (snd (fit_transform ys) ! k) = ys ! k"
proof -
  have "ys ! k \<in> set (sort (remdups ys))" using assms by simp
  from position_mem [OF this] show ?thesis
    using assms by (simp add: fit_transform_def Let_def)
qed

lemma fit_transform_length: "length (snd (fit_transform ys)) = length ys"
  by (simp add: fit_transform_def Let_def)

lemma prepare_training_data_result:
  assumes g: "generate_risk_matrix (rule_engine self) = Inr risk_df" and ne: "risk_df \<noteq> []"
  shows "prepare_training_data self =
     (Inr (dropna (preprocess_features (range_index (map select_features risk_df))),
           snd (fit_transform (map (\<lambda>i. row_RiskLevel (risk_df ! i)) (kept_labels risk_df))),
           zip (kept_labels risk_df) (map (\<lambda>i. risk_df ! i) (kept_labels risk_df))),
      self\<lparr> label_encoder :=
               Some (fst (fit_transform (map (\<lambda>i. row_RiskLevel (risk_df ! i)) (kept_labels risk_df)))),
            risk_df_cleaned :=
               Some (zip (kept_labels risk_df) (map (\<lambda>i. risk_df ! i) (kept_labels risk_df))) \<rparr>)"
proof -
  have l1: "loc (map row_RiskLevel risk_df) (kept_labels risk_df) =
      Inr (map (\<lambda>i. row_RiskLevel (risk_df ! i)) (kept_labels risk_df))"
    by (rule loc_kept)
  have l2: "loc risk_df (kept_labels risk_df) = Inr (map (\<lambda>i. risk_df ! i) (kept_labels risk_df))"
    using loc_kept [of id risk_df] by simp
  show ?thesis
    unfolding prepare_training_data_def
    by (simp add: g ne Let_def dropna_preprocess_kept l1 l2)
qed

lemma prepare_training_data_Inr:
  assumes "prepare_training_data self = (Inr res, self')"
  shows "\<exists>risk_df. generate_risk_matrix (rule_engine self) = Inr risk_df \<and> risk_df \<noteq> []"
proof (cases "generate_risk_matrix (rule_engine self)")
  case (Inl e)
  with assms show ?thesis by (simp add: prepare_training_data_def)
next
  case (Inr risk_df)
  with assms have "risk_df \<noteq> []"
    by (auto simp: prepare_training_data_def)
  with Inr show ?thesis by blast
qed

lemma prepare_training_data_model: "model (snd (prepare_training_data self)) = model self"
proof (cases "generate_risk_matrix (rule_engine self)")
  case (Inl e)
  then show ?thesis by (simp add: prepare_training_data_def)
next
  case (Inr risk_df)
  show ?thesis
  proof (cases "risk_df = []")
    case True
    with Inr show ?thesis by (simp add: prepare_training_data_def)
  next
    case False
    from prepare_training_data_result [OF Inr False] show ?thesis by simp
  qed
qed

lemma gap_matrix: "generate_risk_matrix (rule_engine gap_model) = Inr gap_rows"
  by code_simp

lemma gap_prepared:
  "prepare_training_data gap_model =
     (Inr (gap_frame, [0], [(1, gap_rows ! 1)]),
      gap_model\<lparr>label_encoder := Some [''Medium Risk''],
                risk_df_cleaned := Some [(1, gap_rows ! 1)]\<rparr>)"
  by code_simp

text \<open>
  Claim C9, amended. The rows kept are those of the processed table without NaN, which are
  the rows with both Age and BMI present; the labels and the cleaned matrix pass the same
  filter, so that there are as many labels as feature rows, and the k-th label decodes to
  the risk level of the matrix row that the k-th feature row comes from.
\<close>

theorem prepare_training_data_aligned:
  assumes p: "prepare_training_data self = (Inr (X, y, cleaned), self')"
      and g: "generate_risk_matrix (rule_engine self) = Inr risk_df"
  shows "df_rows X = filter (\<lambda>r. FNaN \<notin> set (snd r))
           (df_rows (preprocess_features (range_index (map select_features risk_df)))) \<and>
         map fst (df_rows X) = kept_labels risk_df \<and>
         length y = length (df_rows X) \<and>
         map fst cleaned = map fst (df_rows X) \<and>
         (\<forall>k<length y.
            snd (cleaned ! k) = risk_df ! fst (df_rows X ! k) \<and>
            (\<exists>classes. label_encoder self' = Some classes \<and> y ! k < length classes \<and>
               classes ! (y ! k) = row_RiskLevel (risk_df ! fst (df_rows X ! k))))"
proof -
  let ?P = "preprocess_features (range_index (map select_features risk_df))"
  let ?kept = "kept_labels risk_df"
  let ?labels = "map (\<lambda>i. row_RiskLevel (risk_df ! i)) ?kept"
  from prepare_training_data_Inr [OF p] g have ne: "risk_df \<noteq> []" by auto
  from prepare_training_data_result [OF g ne] p
  have X: "X = dropna ?P"
    and y: "y = snd (fit_transform ?labels)"
    and c: "cleaned = zip ?kept (map (\<lambda>i. risk_df ! i) ?kept)"
    and s: "self' = self\<lparr> label_encoder := Some (fst (fit_transform ?labels)),
                          risk_df_cleaned := Some (zip ?kept (map (\<lambda>i. risk_df ! i) ?kept)) \<rparr>"
    by simp_all
  have 1: "df_rows X = filter (\<lambda>r. FNaN \<notin> set (snd r)) (df_rows ?P)"
    by (simp add: X dropna_def)
  have 2: "map fst (df_rows X) = ?kept"
    unfolding X by (rule dropna_preprocess_kept)
  have ly: "length y = length ?kept"
    by (simp add: y fit_transform_length)
  have 3: "length y = length (df_rows X)"
    using ly 2 by (metis length_map)
  have 4: "map fst cleaned = map fst (df_rows X)"
    by (simp add: c 2)
  have 5: "snd (cleaned ! k) = risk_df ! fst (df_rows X ! k) \<and>
            (\<exists>classes. label_encoder self' = Some classes \<and> y ! k < length classes \<and>
               classes ! (y ! k) = row_RiskLevel (risk_df ! fst (df_rows X ! k)))"
    if k: "k < length y" for k
  proof -
    have kk: "k < length ?kept" using k ly by simp
    have f: "fst (df_rows X ! k) = ?kept ! k"
      using 2 kk by (metis length_map nth_map)
    have a: "snd (cleaned ! k) = risk_df ! (?kept ! k)"
      using kk by (simp add: c)
    have kl: "k < length ?labels" using kk by simp
    from fit_transform_decode [OF kl]
    have d: "y ! k < length (fst (fit_transform ?labels))"
         "fst (fit_transform ?labels) ! (y ! k) = row_RiskLevel (risk_df ! (?kept ! k))"
      using kk by (simp_all add: y)
    have "label_encoder self' = Some (fst (fit_transform ?labels))"
      by (simp add: s)
    with a d show ?thesis unfolding f by blast
  qed
  from 1 2 3 4 5 show ?thesis by blast
qed

text \<open>
  The amended C9 on a sample with one row missing Age and one missing BMI.
\<close>

theorem prepare_training_data_aligned_witness:
  "prepare_training_data gap_model =
     (Inr (gap_frame, [0], [(1, gap_rows ! 1)]),
      gap_model\<lparr>label_encoder := Some [''Medium Risk''],
                risk_df_cleaned := Some [(1, gap_rows ! 1)]\<rparr>) \<and>
   generate_risk_matrix (rule_engine gap_model) = Inr gap_rows \<and>
   map fst (df_rows gap_frame) = kept_labels gap_rows \<and>
   kept_labels gap_rows = [1] \<and>
   length [0::nat] = length (df_rows gap_frame) \<and>
   [''Medium Risk''] ! ([0] ! 0) = row_RiskLevel (gap_rows ! 1)"
proof -
  have k: "kept_labels gap_rows = [1]" by code_simp
  have l: "[''Medium Risk''] ! ([0] ! 0) = row_RiskLevel (gap_rows ! 1)"
    by (simp add: gap_rows_def make_row_def)
  note t = prepare_training_data_aligned [OF gap_prepared gap_matrix]
  from t have a: "map fst (df_rows gap_frame) = kept_labels gap_rows" by blast
  from t have b: "length [0::nat] = length (df_rows gap_frame)" by blast
  from gap_prepared gap_matrix a k b l show ?thesis by blast
qed

lemma train_model_unsupported_eq:
  assumes "model_type \<noteq> ''random_forest''"
  shows "train_model sk self model_type =
     (case prepare_training_data self of
        (Inl e, self1) \<Rightarrow> (Inl e, self1)
      | (Inr (X_processed, y_encoded, cleaned), self1) \<Rightarrow>
         (case train_test_split sk X_processed y_encoded (2 / 10) 42 of
            Inl e \<Rightarrow> (Inl e, self1)
          | Inr (xtr, xte, ytr, yte) \<Rightarrow>
             (Inl (ValueError ''Unsupported model type.''),
              self1\<lparr> X_train := Some xtr, X_test := Some xte,
                     y_train := Some ytr, y_test := Some yte \<rparr>)))"
  using assms unfolding train_model_def
  by (simp add: Let_def split: prod.splits sum.splits)

text \<open>
  Claim C7, amended. For a classifier kind other than \<open>random_forest\<close>, \<open>train_model\<close> returns no
  result and leaves the model as it was; an exception of the data preparation or of the split
  is passed on, and when both succeed the partitions are stored and the call fails with
  ValueError, Unsupported model type.
\<close>

theorem train_model_unsupported:
  assumes "model_type \<noteq> ''random_forest''"
  shows "(\<forall>res. fst (train_model sk self model_type) \<noteq> Inr res) \<and>
         model (snd (train_model sk self model_type)) = model self \<and>
         (prepare_training_data self = (Inl e, self1) \<longrightarrow>
            train_model sk self model_type = (Inl e, self1)) \<and>
         (prepare_training_data self = (Inr (X, y, cleaned), self1) \<and>
          train_test_split sk X y (2 / 10) 42 = Inl e \<longrightarrow>
            train_model sk self model_type = (Inl e, self1)) \<and>
         (prepare_training_data self = (Inr (X, y, cleaned), self1) \<and>
          train_test_split sk X y (2 / 10) 42 = Inr (xtr, xte, ytr, yte) \<longrightarrow>
            train_model sk self model_type =
              (Inl (ValueError ''Unsupported model type.''),
               self1\<lparr> X_train := Some xtr, X_test := Some xte,
                      y_train := Some ytr, y_test := Some yte \<rparr>))"
proof -
  note eq = train_model_unsupported_eq [OF assms, of sk self]
  have m: "model (snd (prepare_training_data self)) = model self"
    by (rule prepare_training_data_model)
  have 1: "\<forall>res. fst (train_model sk self model_type) \<noteq> Inr res"
    unfolding eq by (simp split: prod.splits sum.splits)
  have 2: "model (snd (train_model sk self model_type)) = model self"
    unfolding eq using m by (auto split: prod.splits sum.splits)
  have 3: "train_model sk self model_type = (Inl e, self1)"
    if "prepare_training_data self = (Inl e, self1)"
    unfolding eq using that by simp
  have 4: "train_model sk self model_type = (Inl e, self1)"
    if "prepare_training_data self = (Inr (X, y, cleaned), self1) \<and>
        train_test_split sk X y (2 / 10) 42 = Inl e"
    unfolding eq using that by simp
  have 5: "train_model sk self model_type =
              (Inl (ValueError ''Unsupported model type.''),
               self1\<lparr> X_train := Some xtr, X_test := Some xte,
                      y_train := Some ytr, y_test := Some yte \<rparr>)"
    if "prepare_training_data self = (Inr (X, y, cleaned), self1) \<and>
        train_test_split sk X y (2 / 10) 42 = Inr (xtr, xte, ytr, yte)"
    unfolding eq using that by simp
  from 1 2 3 4 5 show ?thesis by blast
qed

lemma demo_prepare:
  "prepare_training_data demo_model =
     (Inr (demo_frame, [0, 1, 2, 2], range_index demo_rows), demo_prepared)"
  by code_simp

lemma demo_split:
  "train_test_split sample_sklearn demo_frame [0, 1, 2, 2] (2 / 10) 42 =
     Inr (demo_frame\<lparr>df_rows := take 3 (df_rows demo_frame)\<rparr>,
          demo_frame\<lparr>df_rows := drop 3 (df_rows demo_frame)\<rparr>, [0, 1, 2], [2])"
  by code_simp

lemma gap_split:
  "train_test_split sample_sklearn gap_frame [0] (2 / 10) 42 =
     Inl (ValueError ''the resulting train set will be empty'')"
  by code_simp

lemma bad_prepare: "prepare_training_data bad_model = (Inl AttributeError, bad_model)"
  by code_simp

lemma svm_kind: "''svm'' \<noteq> ''random_forest''"
  by simp

text \<open>
  The amended C7 on three samples: the split succeeds, the split fails, the preparation
  fails.
\<close>

theorem train_model_unsupported_witness:
  "''svm'' \<noteq> ''random_forest'' \<and>
   prepare_training_data demo_model =
     (Inr (demo_frame, [0, 1, 2, 2], range_index demo_rows), demo_prepared) \<and>
   train_test_split sample_sklearn demo_frame [0, 1, 2, 2] (2 / 10) 42 =
     Inr (demo_frame\<lparr>df_rows := take 3 (df_rows demo_frame)\<rparr>,
          demo_frame\<lparr>df_rows := drop 3 (df_rows demo_frame)\<rparr>, [0, 1, 2], [2]) \<and>
   train_model sample_sklearn demo_model ''svm'' =
     (Inl (ValueError ''Unsupported model type.''),
      demo_prepared\<lparr> X_train := Some (demo_frame\<lparr>df_rows := take 3 (df_rows demo_frame)\<rparr>),
                      X_test := Some (demo_frame\<lparr>df_rows := drop 3 (df_rows demo_frame)\<rparr>),
                      y_train := Some [0, 1, 2], y_test := Some [2] \<rparr>) \<and>
   model (snd (train_model sample_sklearn demo_model ''svm'')) = model demo_model \<and>
   train_model sample_sklearn gap_model ''svm'' =
     (Inl (ValueError ''the resulting train set will be empty''),
      gap_model\<lparr>label_encoder := Some [''Medium Risk''],
                risk_df_cleaned := Some [(1, gap_rows ! 1)]\<rparr>) \<and>
   train_model sample_sklearn bad_model ''svm'' = (Inl AttributeError, bad_model)"
proof -
  note t = train_model_unsupported [OF svm_kind]
  from t [of sample_sklearn demo_model _ demo_prepared demo_frame "[0, 1, 2, 2]"
            "range_index demo_rows"] demo_prepare demo_split
  have a: "train_model sample_sklearn demo_model ''svm'' =
     (Inl (ValueError ''Unsupported model type.''),
      demo_prepared\<lparr> X_train := Some (demo_frame\<lparr>df_rows := take 3 (df_rows demo_frame)\<rparr>),
                      X_test := Some (demo_frame\<lparr>df_rows := drop 3 (df_rows demo_frame)\<rparr>),
                      y_train := Some [0, 1, 2], y_test := Some [2] \<rparr>)"
    by blast
  from t [of sample_sklearn demo_model]
  have b: "model (snd (train_model sample_sklearn demo_model ''svm'')) = model demo_model"
    by blast
  from t [of sample_sklearn gap_model "ValueError ''the resulting train set will be empty''"
            "gap_model\<lparr>label_encoder := Some [''Medium Risk''],
                risk_df_cleaned := Some [(1, gap_rows ! 1)]\<rparr>"
            gap_frame "[0]" "[(1, gap_rows ! 1)]"] gap_prepared gap_split
  have c: "train_model sample_sklearn gap_model ''svm'' =
     (Inl (ValueError ''the resulting train set will be empty''),
      gap_model\<lparr>label_encoder := Some [''Medium Risk''],
                risk_df_cleaned := Some [(1, gap_rows ! 1)]\<rparr>)"
    by blast
  from t [of sample_sklearn bad_model AttributeError bad_model] bad_prepare
  have d: "train_model sample_sklearn bad_model ''svm'' = (Inl AttributeError, bad_model)"
    by blast
  from svm_kind demo_prepare demo_split a b c d show ?thesis by blast
qed

text \<open>
  Claim C7 as stated fails: the unsupported kind is refused only after the data has been
  prepared and split, which the object shows afterwards; and when the preparation raises,
  its exception is the one that comes out.
\<close>

theorem train_model_unsupported_counterexample:
  "train_model sample_sklearn demo_model ''svm'' =
     (Inl (ValueError ''Unsupported model type.''),
      demo_prepared\<lparr> X_train := Some (demo_frame\<lparr>df_rows := take 3 (df_rows demo_frame)\<rparr>),
                      X_test := Some (demo_frame\<lparr>df_rows := drop 3 (df_rows demo_frame)\<rparr>),
                      y_train := Some [0, 1, 2], y_test := Some [2] \<rparr>) \<and>
   X_train demo_model = None \<and>
   risk_df_cleaned demo_model = None \<and>
   label_encoder demo_model = None \<and>
   train_model sample_sklearn bad_model ''svm'' = (Inl AttributeError, bad_model)"
proof -
  note eq = train_model_unsupported_eq [OF svm_kind, of sample_sklearn]
  have a: "train_model sample_sklearn demo_model ''svm'' =
     (Inl (ValueError ''Unsupported model type.''),
      demo_prepared\<lparr> X_train := Some (demo_frame\<lparr>df_rows := take 3 (df_rows demo_frame)\<rparr>),
                      X_test := Some (demo_frame\<lparr>df_rows := drop 3 (df_rows demo_frame)\<rparr>),
                      y_train := Some [0, 1, 2], y_test := Some [2] \<rparr>)"
    by (simp only: eq [of demo_model] demo_prepare demo_split prod.case sum.case)
  have b: "train_model sample_sklearn bad_model ''svm'' = (Inl AttributeError, bad_model)"
    by (simp only: eq [of bad_model] bad_prepare prod.case sum.case)
  have c: "X_train demo_model = None" "risk_df_cleaned demo_model = None"
    "label_encoder demo_model = None"
    by (simp_all add: demo_model_def new_MLModel_def)
  from a b c show ?thesis by blast
qed

text \<open>
  Claim C9 as stated fails: a row without SkinType, TrendType and Allergies is kept.
\<close>

theorem prepare_training_data_keeps_missing_category_counterexample:
  "generate_risk_matrix (rule_engine sparse_model) = Inr [sparse_row] \<and>
   row_SkinType sparse_row = None \<and> row_TrendType sparse_row = None \<and>
   row_Allergies sparse_row = None \<and>
   prepare_training_data sparse_model =
     (Inr (\<lparr>df_columns = [''Age'', ''BMI'', ''HasAllergies''],
            df_rows = [(0, [FNum 33, FNum 24, FInt 0])]\<rparr>, [0], [(0, sparse_row)]),
      sparse_model\<lparr>label_encoder := Some [''Safe''],
                   risk_df_cleaned := Some [(0, sparse_row)]\<rparr>)"
  by code_simp

end
